theory Spec2Isabelle
  imports Complex_Main "HOL-Library.Multiset"
begin

section \<open>Conventions of the embedding\<close>

text \<open>
  The C++ sources of the ALNS heuristic (directory \<open>ALNSv2\<close>) are embedded shallowly.
  A \<open>double\<close> is modelled as a \<open>real\<close> (exact arithmetic, no NaN and no rounding);
  customer ids, route ids and positions that index a \<open>std::vector\<close> are natural numbers,
  except where the source passes \<open>pos - 1\<close>, which may be \<open>-1\<close> and is an \<open>int\<close>.
  A \<open>std::vector\<close> is a list; reading it out of range is undefined in C++ and
  unspecified here (\<open>xs ! i\<close>), so every theorem states the ranges it needs.
  A function that mutates the object it is called on takes the object and returns the
  new one; a function that can throw returns the exception as a value, together with the
  object as the throw leaves it where the source keeps using the object afterwards.
  Draws of the random number generator (\<open>UNI\<close>, \<open>rand_number_normal\<close>) and readings
  of the clock are inputs of the functions that draw them.
\<close>

datatype alns_error = InfeasibilityException | LogicError | NoFunctorSelected

text \<open>
  The conversion \<open>int(d)\<close> of a \<open>double\<close> to the 32-bit \<open>int\<close> truncates towards zero
  when the truncated value lies in the range of \<open>int\<close>, from \<open>- 2^31 = -2147483648\<close> to
  \<open>2^31 - 1\<close>, that is for \<open>-2147483649 < d < 2147483648\<close>. Outside that range the
  conversion is undefined in C++; the instruction it compiles to on x86-64
  (\<open>cvttsd2si\<close>) yields \<open>INT_MIN\<close>, and that is the value here. A theorem that gives a
  converted value as a floor or a ceiling states that range.
\<close>

definition cpp_int_of_double :: "real \<Rightarrow> int" where
  "cpp_int_of_double d =
     (if - 2147483649 < d \<and> d < 2147483648 then (if 0 \<le> d then \<lfloor>d\<rfloor> else \<lceil>d\<rceil>)
      else - 2147483648)"

text \<open>\<open>a / b\<close> on two \<open>int\<close>s truncates towards zero as well; \<open>std::round\<close> rounds halves
  away from zero.\<close>

definition cpp_div :: "int \<Rightarrow> int \<Rightarrow> int" where
  "cpp_div a b = sgn a * sgn b * (\<bar>a\<bar> div \<bar>b\<bar>)"

definition cpp_round :: "real \<Rightarrow> real" where
  "cpp_round x = (if 0 \<le> x then of_int \<lfloor>x + 1 / 2\<rfloor> else of_int \<lceil>x - 1 / 2\<rceil>)"

text \<open>\<open>std::pow\<close> on a base in \<open>[0, 1)\<close>, as \<open>UNI\<close> is (for a negative exponent and base 0
  the source yields infinity, which a real does not have).\<close>

definition cpp_pow :: "real \<Rightarrow> real \<Rightarrow> real" where
  "cpp_pow x y = (if y = 0 then 1 else if x = 0 then 0 else x powr y)"

text \<open>\<open>std::numeric_limits<double>::max()\<close>.\<close>

definition dbl_max :: real where
  "dbl_max = (2 ^ 53 - 1) * 2 ^ 971"

subsection \<open>tools.h, tools.cpp\<close>

text \<open>\<open>tools::rand_number(max, min)\<close> is \<open>int(round(UNI * (max - min) + min))\<close>; the draw
  \<open>UNI\<close> is the first argument here.\<close>

definition rand_number :: "real \<Rightarrow> int \<Rightarrow> int \<Rightarrow> int" where
  "rand_number uni max_v min_v =
     cpp_int_of_double (cpp_round (uni * real_of_int (max_v - min_v) + real_of_int min_v))"

definition range_v :: "nat \<Rightarrow> nat list" where
  "range_v max_v = [0..<max_v]"

definition remove_at :: "'a list \<Rightarrow> nat \<Rightarrow> 'a list" where
  "remove_at v n = take n v @ drop (Suc n) v"

text \<open>\<open>v.insert(v.begin() + n, x)\<close>.\<close>

definition insert_at :: "'a list \<Rightarrow> nat \<Rightarrow> 'a \<Rightarrow> 'a list" where
  "insert_at v n x = take n v @ x # drop n v"

subsection \<open>evaluate.cpp\<close>

text \<open>\<open>get_load_bucket\<close>, lines 43-48.\<close>

definition get_load_bucket :: "real \<Rightarrow> real \<Rightarrow> int" where
  "get_load_bucket customer_demand load_bucket_size =
     cpp_int_of_double ((customer_demand - 0.3) / load_bucket_size)"

text \<open>\<open>time_cube[load_level][from][to]\<close>, the travel time between two nodes at a load
  level (node 0 is the depot, node \<open>c + 1\<close> customer \<open>c\<close>).\<close>

definition cube_at :: "real list list list \<Rightarrow> int \<Rightarrow> nat \<Rightarrow> nat \<Rightarrow> real" where
  "cube_at time_cube load_level from_node to_node = time_cube ! nat load_level ! from_node ! to_node"

text \<open>\<open>update_route_chromosome\<close>, lines 22-32.\<close>

definition update_route_chromosome :: "nat list \<Rightarrow> nat list \<Rightarrow> nat \<Rightarrow> nat \<Rightarrow> nat list" where
  "update_route_chromosome route_chromosome route route_id start_pos =
     fold (\<lambda>customer_id chromosome. chromosome[customer_id := route_id])
       (drop start_pos route) route_chromosome"

text \<open>\<open>update_load_levels\<close>, lines 60-87; \<open>load_level_step\<close> is the body of its loop (lines
  81-84), which runs from \<open>end_pos\<close> down to 0. The parameter \<open>end_pos\<close> is an
  \<open>unsigned int\<close> that \<open>evaluate_change\<close> also calls with \<open>-1\<close>: the comparison of line 72
  is then false and the loop, whose counter is an \<open>int\<close>, does not run. \<open>end_pos\<close> is an
  integer here, the test of line 72 asks for \<open>0 \<le> end_pos\<close>, and the loop runs over the
  positions below \<open>end_pos + 1\<close>. A position beyond the route is outside the vectors
  in the source; \<open>!\<close> is unspecified there.\<close>

definition load_level_step ::
  "nat list \<Rightarrow> real list \<Rightarrow> real \<Rightarrow> nat \<Rightarrow> real \<times> real list \<times> int list
     \<Rightarrow> real \<times> real list \<times> int list" where
  "load_level_step route demand load_bucket_size route_pos st =
     (case st of (new_load, loads, load_levels) \<Rightarrow>
        (let customer_id = route ! route_pos;
             new_load' = new_load + demand ! customer_id
         in (new_load', loads[customer_id := new_load'],
             load_levels[customer_id := get_load_bucket new_load' load_bucket_size])))"

definition update_load_levels ::
  "real list \<Rightarrow> int list \<Rightarrow> nat list \<Rightarrow> int \<Rightarrow> real list \<Rightarrow> real
     \<Rightarrow> real list \<times> int list" where
  "update_load_levels loads load_levels route end_pos demand load_bucket_size =
     (let r_size = length route in
      if r_size > 0 then
        (let new_load = (if 0 \<le> end_pos \<and> end_pos < int r_size - 1
                         then loads ! (route ! nat (end_pos + 1)) else 0)
         in snd (fold (load_level_step route demand load_bucket_size)
                   (rev [0..<nat (end_pos + 1)]) (new_load, loads, load_levels)))
      else (loads, load_levels))"

text \<open>\<open>update_visit_times\<close>, lines 99-138; \<open>visit_loop\<close> is its loop (lines 114-134). The
  references that the source writes to are results here: the driving time of the route,
  the arrival and the departure times.\<close>

fun visit_loop ::
  "int list \<Rightarrow> real list \<Rightarrow> real list list list \<Rightarrow> real list \<Rightarrow> nat list
     \<Rightarrow> nat \<Rightarrow> real \<Rightarrow> real \<Rightarrow> real list \<Rightarrow> real list
     \<Rightarrow> nat \<times> real \<times> real list \<times> real list" where
  "visit_loop load_levels start_windows time_cube service_times []
       prev_node_id current_time route_driving_time arrival_times departure_times =
     (prev_node_id, route_driving_time, arrival_times, departure_times)"
| "visit_loop load_levels start_windows time_cube service_times (customer_id # rest)
       prev_node_id current_time route_driving_time arrival_times departure_times =
     (let node_id = customer_id + 1;
          ctoctime = cube_at time_cube (load_levels ! customer_id) prev_node_id node_id;
          arrival = max (current_time + ctoctime) (start_windows ! customer_id);
          departure = arrival + service_times ! customer_id
      in visit_loop load_levels start_windows time_cube service_times rest
           node_id departure (route_driving_time + ctoctime)
           (arrival_times[customer_id := arrival]) (departure_times[customer_id := departure]))"

definition update_visit_times ::
  "real list \<Rightarrow> real list \<Rightarrow> real \<Rightarrow> nat list \<Rightarrow> int list \<Rightarrow> real list
     \<Rightarrow> real list list list \<Rightarrow> real list \<Rightarrow> real \<times> real list \<times> real list" where
  "update_visit_times arrival_times departure_times starting_time route load_levels
       start_windows time_cube service_times =
     (case visit_loop load_levels start_windows time_cube service_times route
             0 starting_time 0 arrival_times departure_times of
        (prev_node_id, route_driving_time, arrival_times', departure_times') \<Rightarrow>
          (route_driving_time + cube_at time_cube 0 prev_node_id 0,
           arrival_times', departure_times'))"

text \<open>\<open>get_starting_time\<close>, lines 144-159.\<close>

definition get_starting_time ::
  "nat list \<Rightarrow> int list \<Rightarrow> real list \<Rightarrow> real list list list \<Rightarrow> real" where
  "get_starting_time route loads_levels start_windows time_cube =
     (if length route > 0 then
        (let first_customer_id = route ! 0;
             starting_time = start_windows ! first_customer_id
               - cube_at time_cube (loads_levels ! first_customer_id) 0 (first_customer_id + 1)
         in max 0 starting_time)
      else 0)"

text \<open>\<open>get_quality\<close>, lines 164-172.\<close>

definition get_quality :: "real \<Rightarrow> real \<Rightarrow> real \<Rightarrow> real \<Rightarrow> real \<Rightarrow> real" where
  "get_quality time capa_err frame_err capa_error_weight frame_error_weight =
     time + capa_error_weight * capa_err + frame_err * frame_error_weight"

text \<open>\<open>get_capa_error\<close>, lines 197-210.\<close>

definition get_capa_error :: "nat list \<Rightarrow> nat \<Rightarrow> real list \<Rightarrow> real" where
  "get_capa_error route vehicle_capacity loads =
     (if length route > 0 then
        (let customer_id = route ! 0;
             capacity_difference = loads ! customer_id - real vehicle_capacity
         in if capacity_difference > 0 then capacity_difference else 0)
      else 0)"

text \<open>\<open>get_frame_error\<close>, lines 219-236.\<close>

definition get_frame_error :: "nat list \<Rightarrow> real list \<Rightarrow> real list \<Rightarrow> real" where
  "get_frame_error route end_window arrival_times =
     fold (\<lambda>customer_id frame_err.
             (let late_diff = arrival_times ! customer_id - end_window ! customer_id
              in if late_diff > 0 then frame_err + late_diff else frame_err))
       route 0"

text \<open>\<open>get_customer_pos\<close>, lines 260-274: the position of the customer in the
  route, \<open>std::logic_error\<close> when the customer is not in the route.\<close>

fun customer_pos_from :: "nat list \<Rightarrow> nat \<Rightarrow> nat \<Rightarrow> nat option" where
  "customer_pos_from [] customer_id route_pos = None"
| "customer_pos_from (c # rest) customer_id route_pos =
     (if c = customer_id then Some route_pos
      else customer_pos_from rest customer_id (Suc route_pos))"

definition get_customer_pos :: "nat list \<Rightarrow> nat \<Rightarrow> alns_error + nat" where
  "get_customer_pos route customer_id =
     (case customer_pos_from route customer_id 0 of
        None \<Rightarrow> Inl LogicError
      | Some customer_pos \<Rightarrow> Inr customer_pos)"

subsection \<open>solution.cpp\<close>

text \<open>The fields of \<open>ALNSData\<close> (alns_data.h) that the evaluation reads, and the fields of
  \<open>Solution\<close> (solution.h). Customer ids, route ids and positions are naturals: they
  index vectors.\<close>

record alns_data =
  vehicle_cap :: nat
  add_pseudo_capacity :: int
  load_bucket_size :: real
  nr_vehicles :: nat
  nr_customer :: nat
  demand :: "real list"
  service_times :: "real list"
  start_window :: "real list"
  end_window :: "real list"
  time_cube :: "real list list list"

record solution =
  solution_representation :: "nat list list"
  route_chromosome :: "nat list"
  loads :: "real list"
  load_levels :: "int list"
  arrival_times :: "real list"
  departure_times :: "real list"
  driving_time :: real
  capa_error :: real
  frame_error :: real
  is_feasible :: bool
  solution_quality :: real
  start_times :: "real list"
  route_driving_times :: "real list"
  route_capa_errors :: "real list"
  route_frame_errors :: "real list"
  route_qualities :: "real list"


text \<open>\<open>set_is_feasible\<close>, lines 273-280.\<close>

definition set_is_feasible :: "solution \<Rightarrow> solution" where
  "set_is_feasible s =
     (if capa_error s > 0 \<or> frame_error s > 0 then s\<lparr>is_feasible := False\<rparr>
      else s\<lparr>is_feasible := True\<rparr>)"

text \<open>\<open>set_chromosomes\<close>, lines 129-144. The new vectors of this and the following functions
  are value-initialised, that is filled with 0.\<close>

definition set_chromosomes :: "alns_data \<Rightarrow> solution \<Rightarrow> solution" where
  "set_chromosomes d s =
     s\<lparr>route_chromosome :=
         fold (\<lambda>(route_id, route) chromosome. update_route_chromosome chromosome route route_id 0)
           (enumerate 0 (solution_representation s)) (replicate (nr_customer d) 0)\<rparr>"

text \<open>\<open>set_load_levels\<close>, lines 150-168. For an empty route \<open>route.size() - 1\<close> wraps around;
  \<open>update_load_levels\<close> does nothing on an empty route.\<close>

definition set_load_levels :: "alns_data \<Rightarrow> solution \<Rightarrow> solution" where
  "set_load_levels d s =
     (case fold (\<lambda>route (new_loads, loads_lvls).
                   update_load_levels new_loads loads_lvls route (int (length route) - 1)
                     (demand d) (load_bucket_size d))
             (solution_representation s)
             (replicate (nr_customer d) 0, replicate (nr_customer d) 0) of
        (new_loads, loads_lvls) \<Rightarrow> s\<lparr>loads := new_loads, load_levels := loads_lvls\<rparr>)"

text \<open>\<open>set_solution_time\<close>, lines 178-220; \<open>solution_time_step\<close> is the body of its loop.\<close>

definition solution_time_step ::
  "alns_data \<Rightarrow> solution \<Rightarrow> nat \<times> nat list
     \<Rightarrow> real \<times> real list \<times> real list \<times> real list \<times> real list
     \<Rightarrow> real \<times> real list \<times> real list \<times> real list \<times> real list" where
  "solution_time_step d s = (\<lambda>(route_id, route) (total_time, start_times', route_driving_times', arr_times, dep_times).
     (let start_time = get_starting_time route (load_levels s) (start_window d) (time_cube d)
      in case update_visit_times arr_times dep_times start_time route (load_levels s)
                (start_window d) (time_cube d) (service_times d) of
           (route_driving_time, arr_times', dep_times') \<Rightarrow>
             (total_time + route_driving_time, start_times'[route_id := start_time],
              route_driving_times'[route_id := route_driving_time], arr_times', dep_times')))"

definition set_solution_time :: "alns_data \<Rightarrow> solution \<Rightarrow> solution" where
  "set_solution_time d s =
     (let n_routes = length (solution_representation s) in
      case fold (solution_time_step d s) (enumerate 0 (solution_representation s))
             (0, replicate n_routes 0, replicate n_routes 0,
              replicate (nr_customer d) 0, replicate (nr_customer d) 0) of
        (total_time, start_times', route_driving_times', arr_times, dep_times) \<Rightarrow>
          s\<lparr>start_times := start_times', driving_time := total_time,
            route_driving_times := route_driving_times',
            arrival_times := arr_times, departure_times := dep_times\<rparr>)"

text \<open>\<open>set_capa_error\<close>, lines 225-242, and \<open>set_frame_error\<close>, lines 247-266.\<close>

definition set_capa_error :: "alns_data \<Rightarrow> solution \<Rightarrow> solution" where
  "set_capa_error d s =
     (case fold (\<lambda>(route_id, route) (capa_err, route_capa_errors').
                   (let route_capa_error = get_capa_error route (vehicle_cap d) (loads s)
                    in (capa_err + route_capa_error,
                        route_capa_errors'[route_id := route_capa_error])))
             (enumerate 0 (solution_representation s)) (0, replicate (nr_vehicles d) 0) of
        (capa_err, route_capa_errors') \<Rightarrow>
          s\<lparr>capa_error := capa_err, route_capa_errors := route_capa_errors'\<rparr>)"

definition set_frame_error :: "alns_data \<Rightarrow> solution \<Rightarrow> solution" where
  "set_frame_error d s =
     (case fold (\<lambda>(route_id, route) (frame_err, route_frame_errors').
                   (let route_frame_error = get_frame_error route (end_window d) (arrival_times s)
                    in (frame_err + route_frame_error,
                        route_frame_errors'[route_id := route_frame_error])))
             (enumerate 0 (solution_representation s))
             (0, replicate (length (solution_representation s)) 0) of
        (frame_err, route_frame_errors') \<Rightarrow>
          s\<lparr>frame_error := frame_err, route_frame_errors := route_frame_errors'\<rparr>)"

text \<open>\<open>set_quality\<close>, lines 288-308.\<close>

definition set_quality :: "alns_data \<Rightarrow> real \<Rightarrow> real \<Rightarrow> solution \<Rightarrow> solution" where
  "set_quality d capa_error_weight frame_error_weight s =
     (case fold (\<lambda>route_id (quality, route_qualities').
                   (let route_quality = get_quality (route_driving_times s ! route_id)
                          (route_capa_errors s ! route_id) (route_frame_errors s ! route_id)
                          capa_error_weight frame_error_weight
                    in (quality + route_quality, route_qualities'[route_id := route_quality])))
             [0..<nr_vehicles d] (0, replicate (nr_vehicles d) 0) of
        (quality, route_qualities') \<Rightarrow>
          s\<lparr>solution_quality := quality, route_qualities := route_qualities'\<rparr>)"

text \<open>\<open>evaluate_solution\<close>, lines 112-120.\<close>

definition evaluate_solution :: "alns_data \<Rightarrow> real \<Rightarrow> real \<Rightarrow> solution \<Rightarrow> solution" where
  "evaluate_solution d capa_error_weight frame_error_weight s =
     set_is_feasible
       (set_quality d capa_error_weight frame_error_weight
         (set_frame_error d (set_capa_error d (set_solution_time d
           (set_load_levels d (set_chromosomes d s))))))"

text \<open>
  \<open>Solution::evaluate_change\<close>, solution.cpp lines 333-402, in the two parts the source
  numbers. Part 1 (lines 344-354): the capacity error of the route is taken out of the
  aggregate, the loads and load levels are updated up to \<open>ins_pos\<close>, the new capacity
  error of the route is added to the aggregate. The result is that error and the
  solution.
\<close>

definition evaluate_change_capacity ::
  "alns_data \<Rightarrow> nat \<Rightarrow> int \<Rightarrow> solution \<Rightarrow> real \<times> solution" where
  "evaluate_change_capacity d route_id ins_pos s =
     (let route = solution_representation s ! route_id;
          s1 = s\<lparr>capa_error := capa_error s - route_capa_errors s ! route_id\<rparr>;
          (loads', load_levels') = update_load_levels (loads s1) (load_levels s1) route ins_pos
                                     (demand d) (load_bucket_size d);
          s2 = s1\<lparr>loads := loads', load_levels := load_levels'\<rparr>;
          route_capa_error = get_capa_error route (vehicle_cap d) (loads s2)
      in (route_capa_error, s2\<lparr>capa_error := capa_error s2 + route_capa_error\<rparr>))"

text \<open>Part 2 (lines 361-401): the times of the route, its frame error and quality, the
  aggregates, the values of the route, the feasibility.\<close>

definition evaluate_change_times ::
  "alns_data \<Rightarrow> nat \<Rightarrow> real \<Rightarrow> real \<Rightarrow> real \<Rightarrow> solution \<Rightarrow> solution" where
  "evaluate_change_times d route_id route_capa_error capa_error_weight frame_error_weight s =
     (let route = solution_representation s ! route_id;
          s4 = s\<lparr>driving_time := driving_time s - route_driving_times s ! route_id,
                  frame_error := frame_error s - route_frame_errors s ! route_id,
                  solution_quality := solution_quality s - route_qualities s ! route_id\<rparr>;
          start_time = get_starting_time route (load_levels s4) (start_window d) (time_cube d);
          (route_driving_time, arrival_times', departure_times') =
             update_visit_times (arrival_times s4) (departure_times s4) start_time route
               (load_levels s4) (start_window d) (time_cube d) (service_times d);
          s5 = s4\<lparr>route_driving_times := (route_driving_times s4)[route_id := route_driving_time],
                    arrival_times := arrival_times', departure_times := departure_times'\<rparr>;
          route_frame_error = get_frame_error route (end_window d) (arrival_times s5);
          route_quality = get_quality (route_driving_times s5 ! route_id) route_capa_error
                            route_frame_error capa_error_weight frame_error_weight;
          s6 = s5\<lparr>driving_time := driving_time s5 + route_driving_times s5 ! route_id,
                    frame_error := frame_error s5 + route_frame_error,
                    solution_quality := solution_quality s5 + route_quality\<rparr>;
          s7 = s6\<lparr>route_capa_errors := (route_capa_errors s6)[route_id := route_capa_error],
                    route_frame_errors := (route_frame_errors s6)[route_id := route_frame_error],
                    route_qualities := (route_qualities s6)[route_id := route_quality]\<rparr>
      in set_is_feasible s7)"

text \<open>
  The whole function: between the two parts it throws \<open>InfeasibilityException\<close> when the
  new capacity error of the route is at least \<open>add_pseudo_capacity\<close> (lines 357-359); the
  solution is then as part 1 left it.
\<close>

definition evaluate_change ::
  "alns_data \<Rightarrow> nat \<Rightarrow> int \<Rightarrow> real \<Rightarrow> real \<Rightarrow> solution \<Rightarrow> alns_error option \<times> solution" where
  "evaluate_change d route_id ins_pos capa_error_weight frame_error_weight s =
     (case evaluate_change_capacity d route_id ins_pos s of
        (route_capa_error, s3) \<Rightarrow>
          if route_capa_error \<ge> real_of_int (add_pseudo_capacity d)
          then (Some InfeasibilityException, s3)
          else (None, evaluate_change_times d route_id route_capa_error
                        capa_error_weight frame_error_weight s3))"

subsection \<open>operator.cpp\<close>

definition evaluate_insertion_position ::
  "alns_data \<Rightarrow> solution \<Rightarrow> real \<Rightarrow> real \<Rightarrow> nat \<Rightarrow> nat \<Rightarrow> nat
     \<Rightarrow> (alns_error + real) \<times> solution" where
  "evaluate_insertion_position d solution_obj capa_error_weight frame_error_weight
       route_id customer_id ins_pos =
     (let s1 = solution_obj
            \<lparr>solution_representation := (solution_representation solution_obj)
                 [route_id := insert_at (solution_representation solution_obj ! route_id)
                                ins_pos customer_id],
              route_chromosome := (route_chromosome solution_obj)[customer_id := route_id]\<rparr>
      in case evaluate_change d route_id (int ins_pos) capa_error_weight frame_error_weight s1 of
           (Some e, s2) \<Rightarrow>
             (let s3 = s2\<lparr>solution_representation := (solution_representation s2)
                            [route_id := remove_at (solution_representation s2 ! route_id) ins_pos]\<rparr>
              in (Inl InfeasibilityException,
                  snd (evaluate_change d route_id (int ins_pos - 1)
                         capa_error_weight frame_error_weight s3)))
         | (None, s2) \<Rightarrow>
             (let tmp_cost = solution_quality s2;
                  s3 = s2\<lparr>solution_representation := (solution_representation s2)
                            [route_id := remove_at (solution_representation s2 ! route_id) ins_pos]\<rparr>
              in case evaluate_change d route_id (int ins_pos - 1)
                        capa_error_weight frame_error_weight s3 of
                   (Some e, s4) \<Rightarrow> (Inl e, s4)
                 | (None, s4) \<Rightarrow> (Inr tmp_cost, s4)))"

lemma remove_insert_at: "ins_pos \<le> length v \<Longrightarrow> remove_at (insert_at v ins_pos x) ins_pos = v"
  by (simp add: remove_at_def insert_at_def)

lemma evaluate_change_capacity_routes:
  "solution_representation (snd (evaluate_change_capacity d route_id ins_pos s)) = solution_representation s"
  by (simp add: evaluate_change_capacity_def Let_def split: prod.splits)

lemma evaluate_change_times_routes:
  "solution_representation (evaluate_change_times d route_id e cw fw s) = solution_representation s"
  by (simp add: evaluate_change_times_def Let_def set_is_feasible_def split: prod.splits)

lemma evaluate_change_routes:
  "solution_representation (snd (evaluate_change d route_id ins_pos cw fw s)) = solution_representation s"
  using evaluate_change_capacity_routes [of d route_id ins_pos s]
  by (cases "evaluate_change_capacity d route_id ins_pos s")
     (simp add: evaluate_change_def evaluate_change_times_routes)

lemma evaluate_insertion_position_routes:
  assumes "ins_pos \<le> length (solution_representation s ! route_id)"
  shows "solution_representation
           (snd (evaluate_insertion_position d s cw fw route_id customer_id ins_pos))
         = solution_representation s"
proof -
  define s1 where "s1 = s\<lparr>solution_representation := (solution_representation s)
      [route_id := insert_at (solution_representation s ! route_id) ins_pos customer_id],
      route_chromosome := (route_chromosome s)[customer_id := route_id]\<rparr>"
  obtain e1 s2 where ec1: "evaluate_change d route_id (int ins_pos) cw fw s1 = (e1, s2)"
    by fastforce
  have r2: "solution_representation s2 = solution_representation s1"
    using evaluate_change_routes [of d route_id "int ins_pos" cw fw s1] ec1 by simp
  define s3 where "s3 = s2\<lparr>solution_representation := (solution_representation s2)
      [route_id := remove_at (solution_representation s2 ! route_id) ins_pos]\<rparr>"
  have r3: "solution_representation s3 = solution_representation s"
    using assms
    by (cases "route_id < length (solution_representation s)")
       (simp_all add: s3_def r2 s1_def remove_insert_at list_update_beyond)
  obtain e2 s4 where ec2: "evaluate_change d route_id (int ins_pos - 1) cw fw s3 = (e2, s4)"
    by fastforce
  have r4: "solution_representation s4 = solution_representation s"
    using evaluate_change_routes [of d route_id "int ins_pos - 1" cw fw s3] ec2 r3 by simp
  have "snd (evaluate_insertion_position d s cw fw route_id customer_id ins_pos) = s4"
    using ec1 ec2
    by (simp add: evaluate_insertion_position_def Let_def s1_def [symmetric] s3_def [symmetric]
             split: option.splits)
  with r4 show ?thesis
    by simp
qed


lemma evaluate_insertion_position_routes_pair:
  assumes "(x, y) = evaluate_insertion_position d s cw fw route_id customer_id ins_pos"
    and "ins_pos \<le> length (solution_representation s ! route_id)"
  shows "solution_representation y = solution_representation s"
  using evaluate_insertion_position_routes [OF assms(2), of d cw fw customer_id] assms(1)
  by (metis snd_conv)

function best_pos_loop ::
  "alns_data \<Rightarrow> real \<Rightarrow> real \<Rightarrow> nat \<Rightarrow> nat \<Rightarrow> nat \<Rightarrow> real \<times> (real \<times> nat \<times> nat) \<Rightarrow> solution
     \<Rightarrow> (real \<times> (real \<times> nat \<times> nat)) \<times> solution" where
  "best_pos_loop d capa_error_weight frame_error_weight customer_id rid pos acc solution_obj =
     (if pos \<le> length (solution_representation solution_obj ! rid) then
        (case evaluate_insertion_position d solution_obj capa_error_weight frame_error_weight
                rid customer_id pos of
           (Inl e, s') \<Rightarrow> (acc, s')
         | (Inr cost, s') \<Rightarrow>
             (let tmp_cost = cost - solution_quality s' in
              if fst acc > tmp_cost
              then best_pos_loop d capa_error_weight frame_error_weight customer_id rid (Suc pos)
                     (tmp_cost, (tmp_cost, rid, pos)) s'
              else best_pos_loop d capa_error_weight frame_error_weight customer_id rid (Suc pos)
                     acc s'))
      else (acc, solution_obj))"
  by pat_completeness auto
termination
  by (relation "measure (\<lambda>(d, cw, fw, customer_id, rid, pos, acc, s).
                   Suc (length (solution_representation s ! rid)) - pos)")
     (auto dest: evaluate_insertion_position_routes_pair)

declare best_pos_loop.simps [simp del]

definition get_best_insertion ::
  "alns_data \<Rightarrow> nat \<Rightarrow> solution \<Rightarrow> real \<Rightarrow> real \<Rightarrow> int \<Rightarrow> (real \<times> nat \<times> nat) \<times> solution" where
  "get_best_insertion d customer_id solution_obj capa_error_weight frame_error_weight route_id =
     (let start_id = (if route_id \<ge> 0 then nat route_id else 0);
          stop_id = (if route_id \<ge> 0 then nat route_id + 1
                     else length (solution_representation solution_obj));
          min_cost = dbl_max;
          best_insertion = (min_cost, 0, 0)
      in case fold (\<lambda>rid (acc, s).
                      best_pos_loop d capa_error_weight frame_error_weight customer_id rid 0 acc s)
                [start_id..<stop_id] ((min_cost, best_insertion), solution_obj) of
           ((min_cost', best_insertion'), s') \<Rightarrow> (best_insertion', s'))"

fun BasicGreedyInsertionOperator ::
  "alns_data \<Rightarrow> real \<Rightarrow> real \<Rightarrow> nat list \<Rightarrow> solution \<Rightarrow> alns_error option \<times> solution" where
  "BasicGreedyInsertionOperator d capa_error_weight frame_error_weight [] solution_obj =
     (None, solution_obj)"
| "BasicGreedyInsertionOperator d capa_error_weight frame_error_weight (customer_id # rest)
       solution_obj =
     (case get_best_insertion d customer_id solution_obj capa_error_weight frame_error_weight (- 1) of
        ((cost, best_route_id, best_route_pos), s1) \<Rightarrow>
          (let s2 = s1\<lparr>solution_representation := (solution_representation s1)
                         [best_route_id := insert_at (solution_representation s1 ! best_route_id)
                                             best_route_pos customer_id],
                       route_chromosome := (route_chromosome s1)[customer_id := best_route_id]\<rparr>
           in case evaluate_change d best_route_id (int best_route_pos)
                     capa_error_weight frame_error_weight s2 of
                (Some e, s3) \<Rightarrow> (Some e, s3)
              | (None, s3) \<Rightarrow>
                  BasicGreedyInsertionOperator d capa_error_weight frame_error_weight rest s3))"

definition random_destroy_route ::
  "alns_data \<Rightarrow> real \<Rightarrow> (nat \<Rightarrow> real) \<Rightarrow> nat list \<Rightarrow> nat \<times> nat list \<times> nat list
     \<Rightarrow> nat \<times> nat list \<times> nat list" where
  "random_destroy_route d mean_removal uni route st =
     fold (\<lambda>customer_id (draws, new_route, removed_customers).
             (let rnd_int = rand_number (uni draws) (int (nr_customer d)) 0 in
              if real_of_int rnd_int > mean_removal
              then (Suc draws, new_route @ [customer_id], removed_customers)
              else (Suc draws, new_route, removed_customers @ [customer_id])))
       route st"

definition RandomDestroyOperator ::
  "alns_data \<Rightarrow> real \<Rightarrow> real \<Rightarrow> real \<Rightarrow> (nat \<Rightarrow> real) \<Rightarrow> solution \<Rightarrow> nat list \<times> solution" where
  "RandomDestroyOperator d capa_error_weight frame_error_weight mean_removal uni solution_obj =
     (case fold (\<lambda>route (draws, tmp_destroyed_route, removed_customers).
                   (case random_destroy_route d mean_removal uni route (draws, [], removed_customers) of
                      (draws', new_route, removed_customers') \<Rightarrow>
                        (draws', tmp_destroyed_route @ [new_route], removed_customers')))
             (solution_representation solution_obj) (0, [], []) of
        (draws, tmp_destroyed_route, removed_customers) \<Rightarrow>
          (removed_customers,
           evaluate_solution d capa_error_weight frame_error_weight
             (solution_obj\<lparr>solution_representation := tmp_destroyed_route\<rparr>)))"

text \<open>
  \<open>evaluate_removal_position\<close>, operator.cpp lines 200-227. It has no \<open>try\<close>: an
  \<open>InfeasibilityException\<close> of either \<open>evaluate_change\<close> leaves the function at once.
\<close>

definition evaluate_removal_position ::
  "alns_data \<Rightarrow> solution \<Rightarrow> real \<Rightarrow> real \<Rightarrow> nat \<Rightarrow> nat \<Rightarrow> (alns_error + real) \<times> solution" where
  "evaluate_removal_position d solution_obj capa_error_weight frame_error_weight route_id rem_pos =
     (let customer_id = solution_representation solution_obj ! route_id ! rem_pos;
          s1 = solution_obj
            \<lparr>solution_representation := (solution_representation solution_obj)
                 [route_id := remove_at (solution_representation solution_obj ! route_id) rem_pos]\<rparr>
      in case evaluate_change d route_id (int rem_pos - 1) capa_error_weight frame_error_weight s1 of
           (Some e, s2) \<Rightarrow> (Inl e, s2)
         | (None, s2) \<Rightarrow>
             (let tmp_cost = solution_quality s2;
                  s3 = s2\<lparr>solution_representation := (solution_representation s2)
                            [route_id := insert_at (solution_representation s2 ! route_id)
                                           rem_pos customer_id],
                          route_chromosome := (route_chromosome s2)[customer_id := route_id]\<rparr>
              in case evaluate_change d route_id (int rem_pos)
                        capa_error_weight frame_error_weight s3 of
                   (Some e, s4) \<Rightarrow> (Inl e, s4)
                 | (None, s4) \<Rightarrow> (Inr tmp_cost, s4)))"

lemma insert_remove_at: "rem_pos < length v \<Longrightarrow> insert_at (remove_at v rem_pos) rem_pos (v ! rem_pos) = v"
  by (simp add: remove_at_def insert_at_def min_def id_take_nth_drop [symmetric])

lemma evaluate_removal_position_routes:
  assumes "(Inr cost, y) = evaluate_removal_position d s cw fw route_id rem_pos"
    and "rem_pos < length (solution_representation s ! route_id)"
  shows "solution_representation y = solution_representation s"
proof -
  define s1 where "s1 = s\<lparr>solution_representation := (solution_representation s)
      [route_id := remove_at (solution_representation s ! route_id) rem_pos]\<rparr>"
  obtain e1 s2 where ec1: "evaluate_change d route_id (int rem_pos - 1) cw fw s1 = (e1, s2)"
    by fastforce
  have r2: "solution_representation s2 = solution_representation s1"
    using evaluate_change_routes [of d route_id "int rem_pos - 1" cw fw s1] ec1 by simp
  define s3 where "s3 = s2\<lparr>solution_representation := (solution_representation s2)
      [route_id := insert_at (solution_representation s2 ! route_id) rem_pos
                     (solution_representation s ! route_id ! rem_pos)],
      route_chromosome := (route_chromosome s2)
        [solution_representation s ! route_id ! rem_pos := route_id]\<rparr>"
  have r3: "solution_representation s3 = solution_representation s"
    using assms(2)
    by (cases "route_id < length (solution_representation s)")
       (simp_all add: s3_def r2 s1_def insert_remove_at list_update_beyond)
  obtain e2 s4 where ec2: "evaluate_change d route_id (int rem_pos) cw fw s3 = (e2, s4)"
    by fastforce
  have r4: "solution_representation s4 = solution_representation s"
    using evaluate_change_routes [of d route_id "int rem_pos" cw fw s3] ec2 r3 by simp
  have "y = s4"
    using assms(1) ec1 ec2
    by (simp add: evaluate_removal_position_def Let_def s1_def [symmetric] s3_def [symmetric]
             split: option.splits)
  with r4 show ?thesis
    by simp
qed

text \<open>
  \<open>WorstRemovalDestroyOperator::operator()\<close>, operator.cpp lines 406-515. The local
  variables of the operator are the fields of \<open>worst_state\<close>; \<open>wr_draws\<close> counts the draws
  of \<open>UNI\<close> made so far, the \<open>k\<close>-th of which is \<open>uni k\<close>. In
  \<open>solution_quality - evaluate_removal_position(...)\<close> the quality is read after the call
  (C++ leaves the order open; the call restores the quality it found).
\<close>

record worst_state =
  overall_max_diff :: real
  best_customer_id_pos :: nat
  best_route_id :: nat
  best_rem_pos :: nat
  best_removals :: "(real \<times> nat) list list"
  candidates :: "nat list"
  removed_customers :: "nat list"
  wr_draws :: nat
  wr_solution :: solution

text \<open>Step 1, the loop over the positions of one route (lines 434-459).\<close>

function worst_scan_pos ::
  "alns_data \<Rightarrow> real \<Rightarrow> real \<Rightarrow> real \<Rightarrow> (nat \<Rightarrow> real) \<Rightarrow> nat \<Rightarrow> nat \<Rightarrow> nat \<Rightarrow> real
     \<Rightarrow> worst_state \<Rightarrow> alns_error option \<times> worst_state" where
  "worst_scan_pos d capa_error_weight frame_error_weight rnd_factor uni
       customer_id_pos route_id pos max_cost_diff st =
     (if pos < length (solution_representation (wr_solution st) ! route_id) then
        (case evaluate_removal_position d (wr_solution st) capa_error_weight frame_error_weight
                route_id pos of
           (Inl e, s') \<Rightarrow> (Some e, st\<lparr>wr_solution := s'\<rparr>)
         | (Inr cost, s') \<Rightarrow>
             (let bias = cpp_pow (uni (wr_draws st)) rnd_factor;
                  tmp_cost = (solution_quality s' - cost) * bias;
                  st1 = st\<lparr>wr_solution := s', wr_draws := Suc (wr_draws st)\<rparr>
              in if max_cost_diff < tmp_cost then
                   (let st2 = st1\<lparr>best_removals := (best_removals st1)
                                  [customer_id_pos := (best_removals st1 ! customer_id_pos)
                                     [route_id := (tmp_cost, pos)]]\<rparr>;
                        st3 = (if overall_max_diff st2 < tmp_cost
                               then st2\<lparr>overall_max_diff := tmp_cost,
                                         best_customer_id_pos := customer_id_pos,
                                         best_route_id := route_id,
                                         best_rem_pos := pos\<rparr>
                               else st2)
                    in worst_scan_pos d capa_error_weight frame_error_weight rnd_factor uni
                         customer_id_pos route_id (Suc pos) tmp_cost st3)
                 else worst_scan_pos d capa_error_weight frame_error_weight rnd_factor uni
                        customer_id_pos route_id (Suc pos) max_cost_diff st1))
      else (None, st))"
  by pat_completeness auto
termination
  by (relation "measure (\<lambda>(d, cw, fw, rnd_factor, uni, customer_id_pos, route_id, pos, m, st).
                   length (solution_representation (wr_solution st) ! route_id) - pos)")
     (auto dest: evaluate_removal_position_routes)

declare worst_scan_pos.simps [simp del]

text \<open>Step 1, the loops over the routes and over the candidates (lines 426-461).\<close>

fun worst_scan_routes ::
  "alns_data \<Rightarrow> real \<Rightarrow> real \<Rightarrow> real \<Rightarrow> (nat \<Rightarrow> real) \<Rightarrow> nat \<Rightarrow> nat list
     \<Rightarrow> worst_state \<Rightarrow> alns_error option \<times> worst_state" where
  "worst_scan_routes d capa_error_weight frame_error_weight rnd_factor uni customer_id_pos [] st =
     (None, st)"
| "worst_scan_routes d capa_error_weight frame_error_weight rnd_factor uni customer_id_pos
       (route_id # rest) st =
     (case worst_scan_pos d capa_error_weight frame_error_weight rnd_factor uni
             customer_id_pos route_id 0 (- dbl_max) st of
        (Some e, st') \<Rightarrow> (Some e, st')
      | (None, st') \<Rightarrow>
          worst_scan_routes d capa_error_weight frame_error_weight rnd_factor uni
            customer_id_pos rest st')"

fun worst_scan_customers ::
  "alns_data \<Rightarrow> real \<Rightarrow> real \<Rightarrow> real \<Rightarrow> (nat \<Rightarrow> real) \<Rightarrow> nat list
     \<Rightarrow> worst_state \<Rightarrow> alns_error option \<times> worst_state" where
  "worst_scan_customers d capa_error_weight frame_error_weight rnd_factor uni [] st = (None, st)"
| "worst_scan_customers d capa_error_weight frame_error_weight rnd_factor uni
       (customer_id_pos # rest) st =
     (case worst_scan_routes d capa_error_weight frame_error_weight rnd_factor uni
             customer_id_pos [0..<nr_vehicles d] st of
        (Some e, st') \<Rightarrow> (Some e, st')
      | (None, st') \<Rightarrow>
          worst_scan_customers d capa_error_weight frame_error_weight rnd_factor uni rest st')"

text \<open>Step 2.3, the loop over the positions of the changed route (lines 481-496); the
  state is the solution and the number of draws.\<close>

function worst_rescan_pos ::
  "alns_data \<Rightarrow> real \<Rightarrow> real \<Rightarrow> real \<Rightarrow> (nat \<Rightarrow> real) \<Rightarrow> nat \<Rightarrow> nat \<Rightarrow> real \<times> nat
     \<Rightarrow> nat \<times> solution \<Rightarrow> alns_error option \<times> (real \<times> nat) \<times> nat \<times> solution" where
  "worst_rescan_pos d capa_error_weight frame_error_weight rnd_factor uni route_id pos best st =
     (if pos < length (solution_representation (snd st) ! route_id) then
        (case evaluate_removal_position d (snd st) capa_error_weight frame_error_weight
                route_id pos of
           (Inl e, s') \<Rightarrow> (Some e, best, fst st, s')
         | (Inr cost, s') \<Rightarrow>
             (let bias = cpp_pow (uni (fst st)) rnd_factor;
                  tmp_cost = (solution_quality s' - cost) * bias
              in if fst best < tmp_cost
                 then worst_rescan_pos d capa_error_weight frame_error_weight rnd_factor uni
                        route_id (Suc pos) (tmp_cost, pos) (Suc (fst st), s')
                 else worst_rescan_pos d capa_error_weight frame_error_weight rnd_factor uni
                        route_id (Suc pos) best (Suc (fst st), s')))
      else (None, best, st))"
  by pat_completeness auto
termination
  by (relation "measure (\<lambda>(d, cw, fw, rnd_factor, uni, route_id, pos, best, st).
                   length (solution_representation (snd st) ! route_id) - pos)")
     (auto dest: evaluate_removal_position_routes)

declare worst_rescan_pos.simps [simp del]

text \<open>Step 2.3, the loop over the remaining candidates (lines 477-498).\<close>

fun worst_rescan_customers ::
  "alns_data \<Rightarrow> real \<Rightarrow> real \<Rightarrow> real \<Rightarrow> (nat \<Rightarrow> real) \<Rightarrow> nat list
     \<Rightarrow> worst_state \<Rightarrow> alns_error option \<times> worst_state" where
  "worst_rescan_customers d capa_error_weight frame_error_weight rnd_factor uni [] st = (None, st)"
| "worst_rescan_customers d capa_error_weight frame_error_weight rnd_factor uni
       (customer_id_pos # rest) st =
     (case worst_rescan_pos d capa_error_weight frame_error_weight rnd_factor uni
             (best_route_id st) 0 (- dbl_max, 0) (wr_draws st, wr_solution st) of
        (Some e, best, draws', s') \<Rightarrow> (Some e, st\<lparr>wr_draws := draws', wr_solution := s'\<rparr>)
      | (None, best, draws', s') \<Rightarrow>
          worst_rescan_customers d capa_error_weight frame_error_weight rnd_factor uni rest
            (st\<lparr>wr_draws := draws', wr_solution := s',
                best_removals := (best_removals st)
                  [customer_id_pos := (best_removals st ! customer_id_pos)
                     [best_route_id st := best]]\<rparr>))"

text \<open>Step 2.4, the next best candidate (lines 501-511); the outer loop runs to
  \<open>removed_customers.size()\<close>, as in the source.\<close>

definition worst_next_best :: "alns_data \<Rightarrow> worst_state \<Rightarrow> worst_state" where
  "worst_next_best d st =
     fold (\<lambda>customer_id_pos st'.
             fold (\<lambda>route_id st''.
                     if overall_max_diff st'' < fst (best_removals st'' ! customer_id_pos ! route_id)
                     then st''\<lparr>overall_max_diff := fst (best_removals st'' ! customer_id_pos ! route_id),
                               best_customer_id_pos := customer_id_pos,
                               best_route_id := route_id,
                               best_rem_pos := snd (best_removals st'' ! customer_id_pos ! route_id)\<rparr>
                     else st'')
               [0..<nr_vehicles d] st')
       [0..<length (removed_customers st)] (st\<lparr>overall_max_diff := - dbl_max\<rparr>)"

text \<open>The body of the \<open>while\<close> loop of step 2 (lines 465-511).\<close>

definition worst_removal_body ::
  "alns_data \<Rightarrow> real \<Rightarrow> real \<Rightarrow> real \<Rightarrow> (nat \<Rightarrow> real) \<Rightarrow> worst_state
     \<Rightarrow> alns_error option \<times> worst_state" where
  "worst_removal_body d capa_error_weight frame_error_weight rnd_factor uni st =
     (let st1 = st\<lparr>removed_customers :=
                     removed_customers st @ [candidates st ! best_customer_id_pos st],
                   wr_solution := (wr_solution st)
                     \<lparr>solution_representation := (solution_representation (wr_solution st))
                        [best_route_id st :=
                           remove_at (solution_representation (wr_solution st) ! best_route_id st)
                             (best_rem_pos st)]\<rparr>\<rparr>
      in case evaluate_change d (best_route_id st1) (int (best_rem_pos st1) - 1)
                capa_error_weight frame_error_weight (wr_solution st1) of
           (Some e, s') \<Rightarrow> (Some e, st1\<lparr>wr_solution := s'\<rparr>)
         | (None, s') \<Rightarrow>
             (let st2 = st1\<lparr>wr_solution := s',
                           candidates := remove_at (candidates st1) (best_customer_id_pos st1),
                           best_removals := remove_at (best_removals st1) (best_customer_id_pos st1)\<rparr>
              in case worst_rescan_customers d capa_error_weight frame_error_weight rnd_factor uni
                        [0..<length (candidates st2)] st2 of
                   (Some e, st3) \<Rightarrow> (Some e, st3)
                 | (None, st3) \<Rightarrow> (None, worst_next_best d st3)))"

text \<open>
  The \<open>while\<close> loop of step 2 (line 464), with fuel: \<open>None\<close> is a loop that has not
  ended when the fuel has. The condition is the source's,
  \<open>unsigned(nr_removed_customers) < removed_customers.size()\<close>.
\<close>

fun worst_removal_while ::
  "nat \<Rightarrow> alns_data \<Rightarrow> real \<Rightarrow> real \<Rightarrow> real \<Rightarrow> (nat \<Rightarrow> real) \<Rightarrow> nat \<Rightarrow> worst_state
     \<Rightarrow> (alns_error option \<times> worst_state) option" where
  "worst_removal_while fuel d capa_error_weight frame_error_weight rnd_factor uni
       nr_removed_customers st =
     (if nr_removed_customers < length (removed_customers st) then
        (case fuel of
           0 \<Rightarrow> None
         | Suc fuel' \<Rightarrow>
             (case worst_removal_body d capa_error_weight frame_error_weight rnd_factor uni st of
                (Some e, st') \<Rightarrow> Some (Some e, st')
              | (None, st') \<Rightarrow>
                  worst_removal_while fuel' d capa_error_weight frame_error_weight rnd_factor uni
                    nr_removed_customers st'))
      else Some (None, st))"

text \<open>
  The operator: \<open>normal_draw\<close> is the value of
  \<open>rand_number_normal(mean_removal, mean_removal / 2)\<close>. The result is the exception, if
  one left the operator, the list returned otherwise, and the solution.
\<close>

definition WorstRemovalDestroyOperator ::
  "nat \<Rightarrow> alns_data \<Rightarrow> real \<Rightarrow> real \<Rightarrow> real \<Rightarrow> int \<Rightarrow> (nat \<Rightarrow> real) \<Rightarrow> solution
     \<Rightarrow> ((alns_error + nat list) \<times> solution) option" where
  "WorstRemovalDestroyOperator fuel d capa_error_weight frame_error_weight rnd_factor
       normal_draw uni solution_obj =
     (let nr_removed_customers = nat (max 0 (min (int (nr_customer d) - 1) normal_draw));
          st0 = \<lparr>overall_max_diff = - dbl_max, best_customer_id_pos = 0, best_route_id = 0,
                 best_rem_pos = 0,
                 best_removals = replicate (nr_customer d) (replicate (nr_vehicles d) (0, 0)),
                 candidates = range_v (nr_customer d), removed_customers = [],
                 wr_draws = 0, wr_solution = solution_obj\<rparr>
      in case worst_scan_customers d capa_error_weight frame_error_weight rnd_factor uni
                [0..<length (candidates st0)] st0 of
           (Some e, st1) \<Rightarrow> Some (Inl e, wr_solution st1)
         | (None, st1) \<Rightarrow>
             (case worst_removal_while fuel d capa_error_weight frame_error_weight rnd_factor uni
                     nr_removed_customers st1 of
                None \<Rightarrow> None
              | Some (Some e, st2) \<Rightarrow> Some (Inl e, wr_solution st2)
              | Some (None, st2) \<Rightarrow> Some (Inr (removed_customers st2), wr_solution st2)))"

text \<open>
  The loop that takes the customers of a list out of their routes (operator.cpp lines
  320-325, 390-400, 577-587 and 656-666): the route is looked up in the chromosome, the
  position by \<open>get_customer_pos\<close>, which throws \<open>logic_error\<close> for a customer that is not
  in that route.
\<close>

fun remove_customers :: "nat list \<Rightarrow> solution \<Rightarrow> alns_error option \<times> solution" where
  "remove_customers [] solution_obj = (None, solution_obj)"
| "remove_customers (customer_id # rest) solution_obj =
     (let route_id = route_chromosome solution_obj ! customer_id;
          route = solution_representation solution_obj ! route_id
      in case get_customer_pos route customer_id of
           Inl e \<Rightarrow> (Some e, solution_obj)
         | Inr customer_pos \<Rightarrow>
             remove_customers rest
               (solution_obj\<lparr>solution_representation := (solution_representation solution_obj)
                   [route_id := remove_at (solution_representation solution_obj ! route_id)
                                  customer_pos]\<rparr>))"

text \<open>
  \<open>ShawDestroyOperator\<close>: the members of the class (operator.h lines 201-241), without the
  references to the solution, to the error weights and to \<open>mean_removal\<close>, which are
  arguments of the functions below.
\<close>

record shaw_operator =
  distance_weight :: real
  window_weight :: real
  demand_weight :: real
  vehicle_weight :: real
  norm_distance_matrix :: "real list list"
  norm_start_window_matrix :: "real list list"
  norm_end_window_matrix :: "real list list"
  norm_demand_matrix :: "real list list"
  rnd_factor :: real

text \<open>
  The relatedness of a candidate to the reference customer \<open>rnd_customer_id\<close> before it is
  perturbed, operator.cpp lines 630-638. The test of line 636 compares
  \<open>route_chromosome[cand_id]\<close> with itself, and so does the test here.
\<close>

definition shaw_relatedness :: "shaw_operator \<Rightarrow> solution \<Rightarrow> nat \<Rightarrow> nat \<Rightarrow> real" where
  "shaw_relatedness op solution_obj rnd_customer_id cand_id =
     (let relatedness =
            distance_weight op * (norm_distance_matrix op ! (rnd_customer_id + 1) ! (cand_id + 1))
          + window_weight op * (norm_start_window_matrix op ! rnd_customer_id ! cand_id)
          + window_weight op * (norm_end_window_matrix op ! rnd_customer_id ! cand_id)
          + demand_weight op * (norm_demand_matrix op ! rnd_customer_id ! cand_id)
      in if route_chromosome solution_obj ! cand_id = route_chromosome solution_obj ! cand_id
         then relatedness + vehicle_weight op
         else relatedness)"

text \<open>The loop over the candidates, lines 625-648; the state is \<open>max_relatedness\<close>,
  \<open>related_cust_id_pos\<close> and the number of draws of \<open>UNI\<close>.\<close>

definition shaw_candidates_loop ::
  "shaw_operator \<Rightarrow> solution \<Rightarrow> (nat \<Rightarrow> real) \<Rightarrow> nat \<Rightarrow> nat list \<Rightarrow> real \<times> nat \<times> nat
     \<Rightarrow> real \<times> nat \<times> nat" where
  "shaw_candidates_loop op solution_obj uni rnd_customer_id cands st =
     fold (\<lambda>cand_pos (max_relatedness, related_cust_id_pos, draws).
             (let cand_id = cands ! cand_pos;
                  relatedness = shaw_relatedness op solution_obj rnd_customer_id cand_id
                                  * cpp_pow (uni draws) (rnd_factor op)
              in if relatedness < max_relatedness
                 then (relatedness, cand_pos, Suc draws)
                 else (max_relatedness, related_cust_id_pos, Suc draws)))
       [0..<length cands] st"

text \<open>One round of the loop of lines 618-653; the state is the candidates, the removed
  customers, \<open>related_cust_id_pos\<close> (which the source declares outside the loop and does
  not initialise) and the number of draws.\<close>

definition shaw_select ::
  "shaw_operator \<Rightarrow> solution \<Rightarrow> (nat \<Rightarrow> real) \<Rightarrow> nat \<Rightarrow> nat list \<times> nat list \<times> nat \<times> nat
     \<Rightarrow> nat list \<times> nat list \<times> nat \<times> nat" where
  "shaw_select op solution_obj uni i st =
     (case st of (cands, removed, related_cust_id_pos, draws) \<Rightarrow>
        (let rnd_customer_id = removed ! nat (rand_number (uni draws) (int i - 1) 0)
         in case shaw_candidates_loop op solution_obj uni rnd_customer_id cands
                   (dbl_max, related_cust_id_pos, Suc draws) of
              (max_relatedness, related_cust_id_pos', draws') \<Rightarrow>
                (remove_at cands related_cust_id_pos', removed @ [cands ! related_cust_id_pos'],
                 related_cust_id_pos', draws')))"

text \<open>\<open>ShawDestroyOperator::operator()\<close>, lines 596-670; \<open>normal_draw\<close> is the value of
  \<open>rand_number_normal(mean_removal, mean_removal / 2)\<close>.\<close>

definition ShawDestroyOperator ::
  "shaw_operator \<Rightarrow> alns_data \<Rightarrow> real \<Rightarrow> real \<Rightarrow> int \<Rightarrow> (nat \<Rightarrow> real) \<Rightarrow> solution
     \<Rightarrow> (alns_error + nat list) \<times> solution" where
  "ShawDestroyOperator op d capa_error_weight frame_error_weight normal_draw uni solution_obj =
     (let nr_removed_customers = nat (max 0 (min (int (nr_customer d) - 1) normal_draw));
          customer_id = nat (rand_number (uni 0) (int (nr_customer d) - 1) 0)
      in case fold (shaw_select op solution_obj uni) [1..<nr_removed_customers]
                (remove_at (range_v (nr_customer d)) customer_id, [customer_id], 0, 1) of
           (cands, removed, related_cust_id_pos, draws) \<Rightarrow>
             (case remove_customers removed solution_obj of
                (Some e, s') \<Rightarrow> (Inl e, s')
              | (None, s') \<Rightarrow>
                  (Inr removed, evaluate_solution d capa_error_weight frame_error_weight s')))"

subsection \<open>roulette_wheel.h, roulette_wheel.cpp\<close>

text \<open>
  The members of \<open>RouletteWheel\<close>. \<open>nr_functors\<close> is the size of the vector of functors
  the wheel is built from.
\<close>

record roulette_wheel =
  wheel_parameter :: real
  memory_length :: int
  min_weight :: real
  nr_functors :: nat
  last_functor_id :: nat
  weights :: "real list"
  scores :: "real list"
  nr_uses :: "int list"

text \<open>
  \<open>get_random_functor_id\<close>, roulette_wheel.cpp lines 20-42; \<open>uni\<close> is the draw of \<open>UNI\<close>.
  \<open>functor_loop\<close> is the second loop; leaving it without a functor is the
  \<open>std::exception\<close> of line 41.
\<close>

function functor_loop :: "roulette_wheel \<Rightarrow> real \<Rightarrow> nat \<Rightarrow> real \<Rightarrow> alns_error + nat" where
  "functor_loop w rnd functor_id current_weight =
     (if functor_id < nr_functors w then
        (let current_weight' = current_weight + weights w ! functor_id in
         if rnd \<le> current_weight' then Inr functor_id
         else functor_loop w rnd (Suc functor_id) current_weight')
      else Inl NoFunctorSelected)"
  by pat_completeness auto
termination
  by (relation "measure (\<lambda>(w, rnd, functor_id, current_weight). nr_functors w - functor_id)") auto

declare functor_loop.simps [simp del]

definition get_random_functor_id ::
  "roulette_wheel \<Rightarrow> real \<Rightarrow> alns_error + (nat \<times> roulette_wheel)" where
  "get_random_functor_id w uni =
     (let sum_of_weight = fold (\<lambda>weight s. s + weight) (weights w) 0;
          rnd = uni * sum_of_weight
      in case functor_loop w rnd 0 0 of
           Inl e \<Rightarrow> Inl e
         | Inr functor_id \<Rightarrow> Inr (functor_id, w\<lparr>last_functor_id := functor_id\<rparr>))"

text \<open>\<open>update_stats\<close>, lines 51-59.\<close>

definition update_stats :: "roulette_wheel \<Rightarrow> real \<Rightarrow> roulette_wheel" where
  "update_stats w new_score =
     (let new_functor_id = last_functor_id w in
      w\<lparr>nr_uses := (nr_uses w)[new_functor_id := nr_uses w ! new_functor_id + 1],
        scores := (scores w)[new_functor_id := scores w ! new_functor_id + new_score]\<rparr>)"

text \<open>\<open>update_weights\<close>, lines 64-86: \<open>update_weight_at\<close> is the body of the loop.\<close>

definition update_weight_at :: "roulette_wheel \<Rightarrow> nat \<Rightarrow> roulette_wheel" where
  "update_weight_at w functor_id =
     (let w1 =
        (if nr_uses w ! functor_id > 0 then
           (let weight = wheel_parameter w
                   * (scores w ! functor_id / real_of_int (nr_uses w ! functor_id))
                 + (1 - wheel_parameter w) * weights w ! functor_id
            in if weight < min_weight w
               then w\<lparr>weights := (weights w)[functor_id := min_weight w]\<rparr>
               else w\<lparr>weights := (weights w)[functor_id := weight]\<rparr>)
         else w\<lparr>weights := (weights w)[functor_id := min_weight w]\<rparr>)
      in w1\<lparr>scores := (scores w1)[functor_id := 0],
            nr_uses := (nr_uses w1)[functor_id := 0]\<rparr>)"

definition update_weights :: "roulette_wheel \<Rightarrow> roulette_wheel" where
  "update_weights w = fold (\<lambda>functor_id w'. update_weight_at w' functor_id) [0..<nr_functors w] w"

subsection \<open>Solution::get_diversity\<close>

text \<open>
  solution.cpp lines 405-429. \<open>node_pair_useage_matrix[..][..] / new_iter\<close> divides an
  \<open>int\<close> by an \<open>int\<close>, and \<open>1 - ...\<close> is an \<open>int\<close> that is added to the
  \<open>double diversity\<close>; \<open>diversity / diversity_norm\<close> divides a \<open>double\<close> by an \<open>int\<close>.
\<close>

definition route_diversity :: "int list list \<Rightarrow> int \<Rightarrow> nat list \<Rightarrow> real \<Rightarrow> real" where
  "route_diversity useage new_iter route diversity =
     (case fold (\<lambda>customer_id (prev_node_id, dv).
                   (customer_id + 1,
                    dv + real_of_int (1 - cpp_div (useage ! prev_node_id ! (customer_id + 1)) new_iter)))
             route (0, diversity) of
        (prev_node_id, dv) \<Rightarrow> dv + real_of_int (1 - cpp_div (useage ! prev_node_id ! 0) new_iter))"

definition get_diversity :: "alns_data \<Rightarrow> solution \<Rightarrow> int list list \<Rightarrow> int \<Rightarrow> real" where
  "get_diversity d s node_pair_useage iteration_nr =
     (let new_iter = iteration_nr + 1 in
      case fold (\<lambda>route (diversity_norm, diversity).
                   if length route > 0
                   then (diversity_norm + 1, route_diversity node_pair_useage new_iter route diversity)
                   else (diversity_norm, diversity))
             (solution_representation s) (int (nr_customer d), 0) of
        (diversity_norm, diversity) \<Rightarrow> diversity / real_of_int diversity_norm)"

subsection \<open>alns.h, alns.cpp: the search driver\<close>

text \<open>
  The members of \<open>ALNS\<close>: \<open>alns_params\<close> holds the ones the constructor fixes (with the
  sizes of the two lists of operator names), \<open>alns\<close> the ones \<open>solve\<close> changes;
  \<open>visited_solutions\<close> is the \<open>unordered_map\<close> from a solution representation to a time
  stamp, \<open>solution\<close> is the best solution. \<open>solve_locals\<close> holds the local variables of
  \<open>solve\<close>.
\<close>

record alns_params =
  max_time :: int
  max_iterations :: real
  init_temperature :: real
  cooling_rate :: real
  wheel_memory_length :: int
  functor_reward_best :: real
  functor_reward_unique :: real
  functor_reward_accept_better :: real
  functor_penalty :: real
  functor_reward_divers :: real
  target_inf :: real
  shakeup_log :: real
  mean_removal_log :: real
  operator_names_d_size :: nat
  operator_names_r_size :: nat
  data_obj :: alns_data

record alns =
  mean_removal :: real
  inf_count :: real
  node_pair_potential_matrix :: "real list list"
  node_pair_useage_matrix :: "int list list"
  current_solution :: solution
  running_solution :: solution
  visited_solutions :: "nat list list \<rightharpoonup> int"
  capa_error_weight :: real
  frame_error_weight :: real
  destroy_wheel :: roulette_wheel
  insertion_wheel :: roulette_wheel
  solution :: solution

record solve_locals =
  current_temperature :: real
  iteration :: int
  iteration_wi :: int
  iteration_inf :: int
  start :: int
  prev_time_stamp :: int

text \<open>
  What one round of the main loop takes from outside: the two draws of the wheels, the
  clock at the start and at the end of the round, the draw of the acceptance test, and
  \<open>operated\<close>, the running solution as the chosen destroy operator followed by the chosen
  repair operator leave it (or the exception that left them). The operators are the only
  code of the round that is not written out below; they hold references to the running
  solution, the two error weights, \<open>mean_removal\<close> and the potential matrix, and write to
  the running solution only.
\<close>

record iteration_env =
  uni_destroy :: real
  uni_insertion :: real
  time_stamp :: int
  operated :: "alns_error + solution"
  random_int :: real
  end_time_stamp :: int

definition mat_upd :: "'a list list \<Rightarrow> nat \<Rightarrow> nat \<Rightarrow> 'a \<Rightarrow> 'a list list" where
  "mat_upd m i j v = m[i := (m ! i)[j := v]]"

text \<open>\<open>update_historic_matrices\<close>, alns.cpp lines 303-325.\<close>

definition historic_route ::
  "real \<Rightarrow> nat list \<Rightarrow> real list list \<times> int list list \<Rightarrow> real list list \<times> int list list" where
  "historic_route running_driving_time route st =
     (if length route > 0 then
        (case fold (\<lambda>customer_id (prev_node_id, potential, useage).
                      (customer_id + 1,
                       (if potential ! prev_node_id ! (customer_id + 1) > running_driving_time
                        then mat_upd potential prev_node_id (customer_id + 1) running_driving_time
                        else potential),
                       mat_upd useage prev_node_id (customer_id + 1)
                         (useage ! prev_node_id ! (customer_id + 1) + 1)))
                route (0, fst st, snd st) of
           (prev_node_id, potential, useage) \<Rightarrow>
             (mat_upd potential prev_node_id 0 running_driving_time,
              mat_upd useage prev_node_id 0 (useage ! prev_node_id ! 0 + 1)))
      else st)"

definition update_historic_matrices :: "alns \<Rightarrow> alns" where
  "update_historic_matrices a =
     (case fold (historic_route (driving_time (running_solution a)))
             (solution_representation (running_solution a))
             (node_pair_potential_matrix a, node_pair_useage_matrix a) of
        (potential, useage) \<Rightarrow>
          a\<lparr>node_pair_potential_matrix := potential, node_pair_useage_matrix := useage\<rparr>)"

text \<open>\<open>ALNS::update_weights\<close>, lines 330-347.\<close>

definition update_error_weights :: "alns_params \<Rightarrow> alns \<Rightarrow> alns" where
  "update_error_weights p a =
     (let current_inf = inf_count a / 100;
          a1 = (if current_inf + 0.05 < target_inf p
                then a\<lparr>capa_error_weight := capa_error_weight a * 0.85,
                       frame_error_weight := frame_error_weight a * 0.85\<rparr>
                else if current_inf - 0.05 > target_inf p
                then a\<lparr>frame_error_weight := frame_error_weight a * 1.2,
                       capa_error_weight := capa_error_weight a * 1.2\<rparr>
                else a)
      in a1\<lparr>current_solution := set_quality (data_obj p) (capa_error_weight a1)
                                   (frame_error_weight a1) (current_solution a1),
            running_solution := set_quality (data_obj p) (capa_error_weight a1)
                                   (frame_error_weight a1) (running_solution a1)\<rparr>)"

text \<open>
  \<open>ALNS::solve\<close>, step 4.2 (lines 398-424): the running solution against the current one.
  The result is the driver and \<open>operation_benefit\<close>.
\<close>

definition compare_with_current ::
  "alns_params \<Rightarrow> real \<Rightarrow> solve_locals \<Rightarrow> real \<Rightarrow> alns \<Rightarrow> alns \<times> real" where
  "compare_with_current p rnd l operation_benefit a =
     (let running_quality = solution_quality (running_solution a);
          current_quality = solution_quality (current_solution a)
      in if running_quality < current_quality then
           (a\<lparr>current_solution := running_solution a\<rparr>,
            operation_benefit + functor_reward_accept_better p)
         else
           (let diversity_relevance =
                  exp (- (running_quality - current_quality) / current_temperature l);
                diversity = get_diversity (data_obj p) (running_solution a)
                              (node_pair_useage_matrix a) (iteration l);
                benefit = operation_benefit
                            + diversity * diversity_relevance * functor_reward_divers p
                            + functor_penalty p
            in if rnd < diversity_relevance
               then (a\<lparr>current_solution := running_solution a\<rparr>, benefit)
               else (a, benefit)))"

text \<open>
  Step 4.3 (lines 426-446): the running solution against the best one. This is the only
  assignment to \<open>solution\<close> in \<open>solve\<close>.
\<close>

definition compare_with_best ::
  "alns_params \<Rightarrow> real \<Rightarrow> alns \<times> solve_locals \<Rightarrow> alns \<times> solve_locals \<times> real" where
  "compare_with_best p operation_benefit st =
     (case st of (a, l) \<Rightarrow>
        if driving_time (running_solution a) < driving_time (solution a)
           \<and> is_feasible (running_solution a)
        then
          (let a1 = a\<lparr>solution := running_solution a\<rparr>;
               l1 = l\<lparr>iteration_wi := 0\<rparr>;
               a2 = (if shakeup_log p > 0
                     then a1\<lparr>mean_removal :=
                            of_int \<lceil>ln (real (nr_customer (data_obj p))) / ln (mean_removal_log p)\<rceil>\<rparr>
                     else a1)
           in (a2, l1, operation_benefit + functor_reward_best p))
        else
          (let l1 = l\<lparr>iteration_wi := iteration_wi l + 1\<rparr>;
               a1 = (if shakeup_log p > 0
                     then a\<lparr>mean_removal :=
                            of_int \<lceil>(ln (real_of_int (iteration_wi l1 + 1)) / ln (shakeup_log p))
                              * (ln (real (nr_customer (data_obj p))) / ln (mean_removal_log p))\<rceil>\<rparr>
                     else a)
           in (a1, l1, operation_benefit)))"

text \<open>Step 5 (lines 448-494): the visited solutions, the infeasibility count, the wheels,
  the temperature and the next running solution.\<close>

definition prepare_next_iteration ::
  "alns_params \<Rightarrow> iteration_env \<Rightarrow> bool \<Rightarrow> alns \<times> solve_locals \<times> real \<Rightarrow> alns \<times> solve_locals" where
  "prepare_next_iteration p env count_sol st =
     (case st of (a, l, operation_benefit) \<Rightarrow>
        (let a1 = (if \<not> count_sol
                   then a\<lparr>visited_solutions := (visited_solutions a)
                            (solution_representation (running_solution a) \<mapsto> time_stamp env)\<rparr>
                   else a);
             a2 = (if \<not> is_feasible (running_solution a1)
                   then a1\<lparr>inf_count := inf_count a1 + 1\<rparr> else a1);
             a3 = (if iteration_inf l = 99
                   then (update_error_weights p a2)\<lparr>inf_count := 0\<rparr> else a2);
             l1 = (if iteration_inf l = 99 then l\<lparr>iteration_inf := 0\<rparr>
                   else l\<lparr>iteration_inf := iteration_inf l + 1\<rparr>);
             execution_time = end_time_stamp env - time_stamp env + 1;
             a4 = a3\<lparr>destroy_wheel := update_stats (destroy_wheel a3)
                                        (operation_benefit / real_of_int execution_time),
                     insertion_wheel := update_stats (insertion_wheel a3)
                                          (operation_benefit / real_of_int execution_time)\<rparr>;
             a5 = (if iteration l1 mod (int (operator_names_d_size p) * wheel_memory_length p) = 0
                   then a4\<lparr>destroy_wheel := update_weights (destroy_wheel a4)\<rparr> else a4);
             a6 = (if iteration l1 mod (int (operator_names_r_size p) * wheel_memory_length p) = 0
                   then a5\<lparr>insertion_wheel := update_weights (insertion_wheel a5)\<rparr> else a5);
             l2 = l1\<lparr>current_temperature := current_temperature l1 * cooling_rate p,
                     iteration := iteration l1 + 1\<rparr>;
             a7 = a6\<lparr>running_solution := current_solution a6\<rparr>;
             l3 = l2\<lparr>prev_time_stamp := time_stamp env\<rparr>
         in (a7, l3)))"

text \<open>One round of the \<open>while\<close> loop of \<open>solve\<close> (lines 372-494).\<close>

definition solve_iteration ::
  "alns_params \<Rightarrow> iteration_env \<Rightarrow> alns \<times> solve_locals \<Rightarrow> alns_error + alns \<times> solve_locals" where
  "solve_iteration p env st =
     (case st of (a, l) \<Rightarrow>
        (case get_random_functor_id (destroy_wheel a) (uni_destroy env) of
           Inl e \<Rightarrow> Inl e
         | Inr (destroy_id, dw) \<Rightarrow>
             (case get_random_functor_id (insertion_wheel a) (uni_insertion env) of
                Inl e \<Rightarrow> Inl e
              | Inr (insertion_id, iw) \<Rightarrow>
                  (case operated env of
                     Inl e \<Rightarrow> Inl e
                   | Inr running \<Rightarrow>
                       (let a1 = update_historic_matrices
                                   (a\<lparr>destroy_wheel := dw, insertion_wheel := iw,
                                      running_solution := running\<rparr>);
                            count_sol = (visited_solutions a1
                                           (solution_representation (running_solution a1)) \<noteq> None);
                            operation_benefit = (if \<not> count_sol then functor_reward_unique p else 0)
                        in case compare_with_current p (random_int env) l operation_benefit a1 of
                             (a2, operation_benefit') \<Rightarrow>
                               Inr (prepare_next_iteration p env count_sol
                                      (compare_with_best p operation_benefit' (a2, l))))))))"

text \<open>
  The \<open>while\<close> loop (line 371), run for as many rounds as the list gives inputs for:
  the result is the exception that left the loop, or the state when the loop has ended or
  the inputs have.
\<close>

fun solve_iterations ::
  "alns_params \<Rightarrow> iteration_env list \<Rightarrow> alns \<times> solve_locals \<Rightarrow> alns_error + alns \<times> solve_locals" where
  "solve_iterations p [] st = Inr st"
| "solve_iterations p (env # envs) st =
     (if cpp_div (prev_time_stamp (snd st) - start (snd st)) 1000 < max_time p
         \<and> real_of_int (iteration_wi (snd st)) < max_iterations p
      then (case solve_iteration p env st of
              Inl e \<Rightarrow> Inl e
            | Inr st' \<Rightarrow> solve_iterations p envs st')
      else Inr st)"

subsection \<open>Auxiliary definitions for the statements about the wheel\<close>

definition wheel_wf :: "roulette_wheel \<Rightarrow> bool" where
  "wheel_wf w \<longleftrightarrow> length (weights w) = nr_functors w
     \<and> length (scores w) = nr_functors w \<and> length (nr_uses w) = nr_functors w"

definition new_weight :: "roulette_wheel \<Rightarrow> nat \<Rightarrow> real" where
  "new_weight w i =
     (if nr_uses w ! i > 0
      then max (min_weight w)
             (wheel_parameter w * (scores w ! i / real_of_int (nr_uses w ! i))
               + (1 - wheel_parameter w) * weights w ! i)
      else min_weight w)"

definition update_upto :: "nat \<Rightarrow> roulette_wheel \<Rightarrow> roulette_wheel" where
  "update_upto n w = fold (\<lambda>functor_id w'. update_weight_at w' functor_id) [0..<n] w"

definition wheel_zero_min :: roulette_wheel where
  "wheel_zero_min = \<lparr>wheel_parameter = 0.1, memory_length = 20, min_weight = 0,
     nr_functors = 1, last_functor_id = 0, weights = [1], scores = [0], nr_uses = [0]\<rparr>"

definition wheel_two :: roulette_wheel where
  "wheel_two = \<lparr>wheel_parameter = 0.1, memory_length = 20, min_weight = 1,
     nr_functors = 2, last_functor_id = 0, weights = [1, 2], scores = [6, 0], nr_uses = [2, 0]\<rparr>"

subsection \<open>The diversity of claim C6, from the words of the specification\<close>

text \<open>
  The arcs a route traverses, as pairs of node ids: depot to first customer, consecutive
  customers, last customer to depot (node id = customer id + 1, the depot is node 0).
\<close>

definition route_arcs :: "nat list \<Rightarrow> (nat \<times> nat) list" where
  "route_arcs route = zip (0 # map Suc route) (map Suc route @ [0])"

text \<open>
  The claimed value: the sum over the arcs of the non-empty routes of
  \<open>1 - usage[arc] / (iter + 1)\<close>, divided by \<open>n_customers\<close> plus the number of non-empty
  routes, in real arithmetic.
\<close>

definition diversity_spec :: "alns_data \<Rightarrow> solution \<Rightarrow> int list list \<Rightarrow> int \<Rightarrow> real" where
  "diversity_spec d s node_pair_useage iteration_nr =
     (\<Sum>route\<leftarrow>filter (\<lambda>r. r \<noteq> []) (solution_representation s).
        \<Sum>arc\<leftarrow>route_arcs route.
          1 - real_of_int (node_pair_useage ! fst arc ! snd arc) / real_of_int (iteration_nr + 1))
     / (real (nr_customer d)
        + real (length (filter (\<lambda>r. r \<noteq> []) (solution_representation s))))"

subsection \<open>The relatedness of claim C5, from the words of the specification\<close>

text \<open>
  \<open>R = w_d D[q][c] + w_sw SW[q][c] + w_ew EW[q][c] + w_dem Dem[q][c] + (w_veh if same
  route else 0)\<close>: the vehicle weight is added when the candidate \<open>c\<close> lies in the route of
  the reference customer \<open>q\<close>. The source has one weight for both windows.
\<close>

definition shaw_relatedness_spec :: "shaw_operator \<Rightarrow> solution \<Rightarrow> nat \<Rightarrow> nat \<Rightarrow> real" where
  "shaw_relatedness_spec op solution_obj q c =
     distance_weight op * (norm_distance_matrix op ! (q + 1) ! (c + 1))
     + window_weight op * (norm_start_window_matrix op ! q ! c)
     + window_weight op * (norm_end_window_matrix op ! q ! c)
     + demand_weight op * (norm_demand_matrix op ! q ! c)
     + (if route_chromosome solution_obj ! c = route_chromosome solution_obj ! q
        then vehicle_weight op else 0)"

subsection \<open>Concrete instances\<close>

text \<open>A solution object with the given routes whose caches have not been evaluated.\<close>

definition unevaluated :: "nat list list \<Rightarrow> solution" where
  "unevaluated routes =
     \<lparr>solution_representation = routes, route_chromosome = [], loads = [], load_levels = [],
      arrival_times = [], departure_times = [], driving_time = 0, capa_error = 0,
      frame_error = 0, is_feasible = False, solution_quality = 0, start_times = [],
      route_driving_times = [], route_capa_errors = [], route_frame_errors = [],
      route_qualities = []\<rparr>"

text \<open>One vehicle, one customer, all travel times 1.\<close>

definition data_one :: alns_data where
  "data_one = \<lparr>vehicle_cap = 10, add_pseudo_capacity = 5, load_bucket_size = 20,
     nr_vehicles = 1, nr_customer = 1, demand = [5], service_times = [0],
     start_window = [0], end_window = [100], time_cube = [[[0, 1], [1, 0]]]\<rparr>"

text \<open>
  Two vehicles of capacity 10 and three customers; all travel times are 1. The windows
  and demands are such that customer 0 differs from customer 1 in start window, end
  window and demand, and from customer 2 in end window and, by half as much, in demand.
\<close>

definition data_three :: alns_data where
  "data_three = \<lparr>vehicle_cap = 10, add_pseudo_capacity = 2, load_bucket_size = 20,
     nr_vehicles = 2, nr_customer = 3, demand = [2, 4, 3], service_times = [0, 0, 0],
     start_window = [0, 10, 0], end_window = [100, 200, 200],
     time_cube = [[[0, 1, 1, 1], [1, 0, 1, 1], [1, 1, 0, 1], [1, 1, 1, 0]]]\<rparr>"

text \<open>
  The operator \<open>shaw_destroy\<close> (alns.cpp lines 166-183: weights 9, 3, 2 and 5) on
  \<open>data_three\<close>, with the normalised matrices that \<open>general_preprocessing\<close> computes for it
  (distances 1 between different nodes; \<open>|v[i] - v[j]|\<close> divided by its maximum for the
  start windows, the end windows and the demands) and no noise (\<open>random_noise = 0\<close>).
\<close>

definition shaw_three :: shaw_operator where
  "shaw_three = \<lparr>distance_weight = 9, window_weight = 3, demand_weight = 2, vehicle_weight = 5,
     norm_distance_matrix = [[0, 1, 1, 1], [1, 0, 1, 1], [1, 1, 0, 1], [1, 1, 1, 0]],
     norm_start_window_matrix = [[0, 1, 0], [1, 0, 1], [0, 1, 0]],
     norm_end_window_matrix = [[0, 1, 1], [1, 0, 0], [1, 0, 0]],
     norm_demand_matrix = [[0, 1, 1 / 2], [1, 0, 1 / 2], [1 / 2, 1 / 2, 0]], rnd_factor = 0\<rparr>"

text \<open>The evaluated solution of \<open>data_three\<close> with the routes \<open>[0, 2]\<close> and \<open>[1]\<close>
  (weights 1).\<close>

definition solution_three :: solution where
  "solution_three =
     \<lparr>solution_representation = [[0, 2], [1]], route_chromosome = [0, 1, 0],
      loads = [5, 4, 3], load_levels = [0, 0, 0], arrival_times = [1, 10, 2],
      departure_times = [1, 10, 2], driving_time = 5, capa_error = 0,
      frame_error = 0, is_feasible = True, solution_quality = 5,
      start_times = [0, 9], route_driving_times = [3, 2],
      route_capa_errors = [0, 0], route_frame_errors = [0, 0],
      route_qualities = [3, 2]\<rparr>"

text \<open>One vehicle of capacity 10, two customers of demand 2, all travel times 1.\<close>

definition data_two :: alns_data where
  "data_two = \<lparr>vehicle_cap = 10, add_pseudo_capacity = 2, load_bucket_size = 20,
     nr_vehicles = 1, nr_customer = 2, demand = [2, 2], service_times = [0, 0],
     start_window = [0, 0], end_window = [100, 100],
     time_cube = [[[0, 1, 1], [1, 0, 1], [1, 1, 0]]]\<rparr>"

text \<open>The evaluated solution of \<open>data_two\<close> with both customers in the one route.\<close>

definition solution_two :: solution where
  "solution_two =
     \<lparr>solution_representation = [[0, 1]], route_chromosome = [0, 0],
      loads = [4, 2], load_levels = [0, 0], arrival_times = [1, 2],
      departure_times = [1, 2], driving_time = 3, capa_error = 0,
      frame_error = 0, is_feasible = True, solution_quality = 3,
      start_times = [0], route_driving_times = [3], route_capa_errors = [0],
      route_frame_errors = [0], route_qualities = [3]\<rparr>"

text \<open>
  A driver on \<open>data_two\<close> with one destroy and one repair operator, as \<open>ALNS::ALNS\<close> and
  \<open>initialization\<close> leave it (the best solution is \<open>Solution(data_obj)\<close>, whose
  \<open>driving_time\<close> is the largest \<open>double\<close>), and a first round whose operators return
  \<open>solution_two\<close>.
\<close>

definition params_two :: alns_params where
  "params_two = \<lparr>max_time = 600, max_iterations = 10000, init_temperature = 0.001,
     cooling_rate = 0.99975, wheel_memory_length = 20, functor_reward_best = 33,
     functor_reward_unique = 9, functor_reward_accept_better = 13, functor_penalty = 0,
     functor_reward_divers = 9, target_inf = 0.2, shakeup_log = 20, mean_removal_log = 2,
     operator_names_d_size = 1, operator_names_r_size = 1, data_obj = data_two\<rparr>"

definition wheel_one :: roulette_wheel where
  "wheel_one = \<lparr>wheel_parameter = 0.1, memory_length = 20, min_weight = 1,
     nr_functors = 1, last_functor_id = 0, weights = [1], scores = [0], nr_uses = [0]\<rparr>"

definition initial_two :: solution where
  "initial_two = solution_two\<lparr>solution_quality := 4, driving_time := 4\<rparr>"

definition alns_two :: alns where
  "alns_two = \<lparr>mean_removal = 1, inf_count = 0,
     node_pair_potential_matrix = replicate 3 (replicate 3 dbl_max),
     node_pair_useage_matrix = replicate 3 (replicate 3 0),
     current_solution = initial_two, running_solution = initial_two,
     visited_solutions = Map.empty, capa_error_weight = 1, frame_error_weight = 1,
     destroy_wheel = wheel_one, insertion_wheel = wheel_one,
     solution = (unevaluated [])\<lparr>driving_time := dbl_max\<rparr>\<rparr>"

definition locals_two :: solve_locals where
  "locals_two = \<lparr>current_temperature = 0.004, iteration = 0, iteration_wi = 0,
     iteration_inf = 0, start = 0, prev_time_stamp = 0\<rparr>"

definition env_two :: iteration_env where
  "env_two = \<lparr>uni_destroy = 1 / 2, uni_insertion = 1 / 2, time_stamp = 1,
     operated = Inr solution_two, random_int = 1 / 2, end_time_stamp = 2\<rparr>"

subsection \<open>The invariants of the specification, for one route\<close>












subsection \<open>Instances for insertion and re-evaluation\<close>


text \<open>
  Five customers and two vehicles of capacity 10, which may be overloaded by less than
  10 (\<open>add_pseudo_capacity\<close>); every travel time is 1, the windows are \<open>[0, 100]\<close>, one
  load bucket.
\<close>

definition data_five :: alns_data where
  "data_five = \<lparr>vehicle_cap = 10, add_pseudo_capacity = 10, load_bucket_size = 20,
     nr_vehicles = 2, nr_customer = 5, demand = [10, 5, 5, 10, 1],
     service_times = [0, 0, 0, 0, 0], start_window = [0, 0, 0, 0, 0],
     end_window = [100, 100, 100, 100, 100],
     time_cube = [replicate 6 (replicate 6 1)]\<rparr>"

text \<open>The draws of \<open>UNI\<close>: the first and the third are 0.9, the others 0.1.\<close>

definition uni_five :: "nat \<Rightarrow> real" where
  "uni_five k = (if k = 0 \<or> k = 2 then 9 / 10 else 1 / 10)"

text \<open>The evaluated solution with routes \<open>[0, 1]\<close> and \<open>[2, 3, 4]\<close> (weights 1).\<close>

definition solution_five :: solution where
  "solution_five =
     \<lparr>solution_representation = [[0, 1], [2, 3, 4]],
      route_chromosome = [0, 0, 1, 1, 1], loads = [15, 5, 16, 11, 1],
      load_levels = [0, 0, 0, 0, 0], arrival_times = [1, 2, 1, 2, 3],
      departure_times = [1, 2, 1, 2, 3], driving_time = 7, capa_error = 11,
      frame_error = 0, is_feasible = False, solution_quality = 18,
      start_times = [0, 0], route_driving_times = [3, 4],
      route_capa_errors = [5, 6], route_frame_errors = [0, 0],
      route_qualities = [8, 10]\<rparr>"

text \<open>The solution after customers 1, 3 and 4 have been removed.\<close>

definition five_destroyed :: solution where
  "five_destroyed =
     \<lparr>solution_representation = [[0], [2]], route_chromosome = [0, 0, 1, 0, 0],
      loads = [10, 0, 5, 0, 0], load_levels = [0, 0, 0, 0, 0],
      arrival_times = [1, 0, 1, 0, 0], departure_times = [1, 0, 1, 0, 0],
      driving_time = 4, capa_error = 0, frame_error = 0, is_feasible = True,
      solution_quality = 4, start_times = [0, 0],
      route_driving_times = [2, 2], route_capa_errors = [0, 0],
      route_frame_errors = [0, 0], route_qualities = [2, 2]\<rparr>"

text \<open>The states that the four probes for customer 1 leave behind: the routes are
  restored, the vectors of the customers keep the entries of the probe.\<close>

definition five_probe_a :: solution where
  "five_probe_a = five_destroyed\<lparr>loads := [10, 15, 5, 0, 0],
     arrival_times := [1, 1, 1, 0, 0], departure_times := [1, 1, 1, 0, 0]\<rparr>"

definition five_probe_b :: solution where
  "five_probe_b = five_destroyed\<lparr>loads := [10, 5, 5, 0, 0],
     arrival_times := [1, 2, 1, 0, 0], departure_times := [1, 2, 1, 0, 0]\<rparr>"

definition five_probe_c :: solution where
  "five_probe_c = five_destroyed\<lparr>route_chromosome := [0, 1, 1, 0, 0],
     loads := [10, 10, 5, 0, 0],
     arrival_times := [1, 1, 1, 0, 0], departure_times := [1, 1, 1, 0, 0]\<rparr>"

definition five_probe_d :: solution where
  "five_probe_d = five_probe_b\<lparr>route_chromosome := [0, 1, 1, 0, 0]\<rparr>"

text \<open>Customer 1 put at the front of route 1, and the route re-evaluated.\<close>

definition five_chosen :: solution where
  "five_chosen = five_probe_d\<lparr>solution_representation := [[0], [1, 2]]\<rparr>"

definition five_inserted :: solution where
  "five_inserted =
     \<lparr>solution_representation = [[0], [1, 2]],
      route_chromosome = [0, 1, 1, 0, 0], loads = [10, 10, 5, 0, 0],
      load_levels = [0, 0, 0, 0, 0], arrival_times = [1, 1, 2, 0, 0],
      departure_times = [1, 1, 2, 0, 0], driving_time = 5, capa_error = 0,
      frame_error = 0, is_feasible = True, solution_quality = 5,
      start_times = [0, 0], route_driving_times = [2, 3],
      route_capa_errors = [0, 0], route_frame_errors = [0, 0],
      route_qualities = [2, 3]\<rparr>"

text \<open>The states that the two probes for customer 3 leave behind, both of which raise,
  and the state in which the operator is left.\<close>

definition five_probe_e :: solution where
  "five_probe_e = five_inserted\<lparr>loads := [10, 10, 5, 20, 0], capa_error := 10,
     is_feasible := False\<rparr>"

definition five_probe_f :: solution where
  "five_probe_f = five_probe_e\<lparr>route_chromosome := [0, 1, 1, 1, 0], capa_error := 20\<rparr>"

definition five_forced :: solution where
  "five_forced = five_probe_f\<lparr>solution_representation := [[3, 0], [1, 2]],
     route_chromosome := [0, 1, 1, 0, 0]\<rparr>"

definition five_final :: solution where
  "five_final = five_forced\<lparr>capa_error := 30\<rparr>"

section \<open>Theorems\<close>

subsection \<open>Evaluation of the model on concrete instances\<close>

lemmas route_evaluate_defs = update_route_chromosome_def update_load_levels_def
  load_level_step_def update_visit_times_def get_starting_time_def get_quality_def
  get_capa_error_def get_frame_error_def get_load_bucket_def cpp_int_of_double_def cube_at_def

lemmas solution_defs = evaluate_solution_def set_chromosomes_def set_load_levels_def
  set_solution_time_def solution_time_step_def set_capa_error_def set_frame_error_def
  set_quality_def set_is_feasible_def

lemmas evaluate_change_defs = evaluate_change_def evaluate_change_capacity_def
  evaluate_change_times_def set_is_feasible_def remove_at_def insert_at_def

lemma dbl_max_ge: "9007199254740991 \<le> dbl_max"
proof -
  have "(2::real) ^ 971 \<ge> 1"
    by simp
  then have "(2 ^ 53 - 1) * (1::real) \<le> (2 ^ 53 - 1) * 2 ^ 971"
    by (intro mult_left_mono) simp_all
  then show ?thesis
    by (simp add: dbl_max_def)
qed

subsection \<open>C7: the load bucket\<close>

lemma cpp_int_of_double_nonneg:
  "0 \<le> d \<Longrightarrow> d < 2147483648 \<Longrightarrow> cpp_int_of_double d = \<lfloor>d\<rfloor>"
  by (simp add: cpp_int_of_double_def)

lemma cpp_int_of_double_neg:
  "d < 0 \<Longrightarrow> - 2147483649 < d \<Longrightarrow> cpp_int_of_double d = \<lceil>d\<rceil>"
  by (simp add: cpp_int_of_double_def)

text \<open>Beyond the range of \<open>int\<close> the bucket is not the floor: a load of \<open>3 * 10^9\<close> at
  bucket size 1 gets \<open>INT_MIN\<close>.\<close>

lemma get_load_bucket_out_of_range:
  "get_load_bucket 3000000000 1 = - 2147483648"
  by (simp add: get_load_bucket_def cpp_int_of_double_def)

text \<open>
  C7 as stated fails at load 0 and bucket size 1: the source computes \<open>int(-0.3) = 0\<close>,
  the floor is \<open>-1\<close>.
\<close>

theorem get_load_bucket_floor_counterexample:
  "(0::real) \<le> 0 \<and> (0::real) < 1 \<and> get_load_bucket 0 1 = 0
   \<and> \<lfloor>(0 - 0.3) / (1::real)\<rfloor> = - 1
   \<and> get_load_bucket 0 1 \<noteq> \<lfloor>(0 - 0.3) / (1::real)\<rfloor>"
proof -
  have "get_load_bucket 0 1 = 0"
    by (simp add: get_load_bucket_def cpp_int_of_double_def)
  moreover have "\<lfloor>(0 - 0.3) / (1::real)\<rfloor> = - 1"
    by (simp add: floor_eq_iff)
  ultimately show ?thesis
    by simp
qed

text \<open>
  C7, amended: for a load \<open>x \<ge> 0\<close> and a bucket size \<open>s > 0\<close> whose quotient
  \<open>(x - 0.3) / s\<close> truncates into the range of the 32-bit \<open>int\<close>
  (\<open>-2147483649 < (x - 0.3) / s < 2147483648\<close>): for \<open>x \<ge> 0.3\<close> the bucket index is
  \<open>floor ((x - 0.3) / s)\<close>; for \<open>x < 0.3\<close> the conversion truncates towards zero and
  the index is the ceiling of the (negative) quotient; a load \<open>k * s\<close> on the upper bound
  of bucket \<open>k - 1\<close> (\<open>1 \<le> k \<le> 2^31\<close>) gets index \<open>k - 1\<close> when \<open>s \<ge> 0.3\<close>.
\<close>

theorem get_load_bucket_amended:
  assumes "0 \<le> x" and "0 < s"
    and "- 2147483649 < (x - 0.3) / s" and "(x - 0.3) / s < 2147483648"
  shows "(0.3 \<le> x \<longrightarrow> get_load_bucket x s = \<lfloor>(x - 0.3) / s\<rfloor>)
       \<and> (x < 0.3 \<longrightarrow> get_load_bucket x s = \<lceil>(x - 0.3) / s\<rceil>)
       \<and> (\<forall>k::nat. 1 \<le> k \<and> k \<le> 2147483648 \<and> 0.3 \<le> s
              \<longrightarrow> get_load_bucket (real k * s) s = int k - 1)"
proof (intro conjI impI allI)
  assume "0.3 \<le> x"
  with assms have "0 \<le> (x - 0.3) / s"
    by simp
  then show "get_load_bucket x s = \<lfloor>(x - 0.3) / s\<rfloor>"
    using assms(4) by (simp add: get_load_bucket_def cpp_int_of_double_nonneg)
next
  assume "x < 0.3"
  with assms have "(x - 0.3) / s < 0"
    by (simp add: divide_neg_pos)
  then show "get_load_bucket x s = \<lceil>(x - 0.3) / s\<rceil>"
    using assms(3) by (simp add: get_load_bucket_def cpp_int_of_double_neg)
next
  fix k :: nat
  assume k: "1 \<le> k \<and> k \<le> 2147483648 \<and> 0.3 \<le> s"
  then have s: "0 < s" and ks: "0.3 \<le> real k * s"
  proof -
    show "0 < s" using k by simp
    have "s \<le> real k * s"
      using mult_right_mono [of 1 "real k" s] k by simp
    then show "0.3 \<le> real k * s"
      using k by linarith
  qed
  have q: "(real k * s - 0.3) / s = real k - 0.3 / s"
    using s by (simp add: diff_divide_distrib)
  have lo: "0 < 0.3 / s" and hi: "0.3 / s \<le> 1"
    using k s by simp_all
  have kr: "real k \<le> 2147483648"
    using k by simp
  have nonneg: "0 \<le> (real k * s - 0.3) / s"
    using ks s by simp
  have "real k - 0.3 / s < 2147483648"
    using kr lo by linarith
  then have "(real k * s - 0.3) / s < 2147483648"
    by (simp only: q)
  with nonneg have "cpp_int_of_double ((real k * s - 0.3) / s) = \<lfloor>(real k * s - 0.3) / s\<rfloor>"
    by (rule cpp_int_of_double_nonneg)
  then have "get_load_bucket (real k * s) s = \<lfloor>real k - 0.3 / s\<rfloor>"
    by (simp only: get_load_bucket_def q)
  also have "\<dots> = int k - 1"
    using lo hi by (simp add: floor_eq_iff)
  finally show "get_load_bucket (real k * s) s = int k - 1" .
qed

theorem get_load_bucket_amended_witness:
  "(0::real) \<le> 10 \<and> (0::real) < 5
   \<and> - 2147483649 < (10 - 0.3) / (5::real) \<and> (10 - 0.3) / (5::real) < 2147483648
   \<and> get_load_bucket 10 5 = 1
   \<and> get_load_bucket 10 5 = \<lfloor>(10 - 0.3) / (5::real)\<rfloor>
   \<and> get_load_bucket (real (2::nat) * 5) 5 = int 2 - 1"
proof -
  have h: "(0::real) \<le> 10" "(0::real) < 5"
    "- 2147483649 < (10 - 0.3) / (5::real)" "(10 - 0.3) / (5::real) < 2147483648"
    by simp_all
  have f: "\<lfloor>(10 - 0.3) / (5::real)\<rfloor> = 1"
    by (simp add: floor_eq_iff)
  show ?thesis
    using get_load_bucket_amended [OF h] f by simp
qed

subsection \<open>C8: the update of the weights\<close>

lemma update_weight_at_fields:
  "wheel_parameter (update_weight_at w i) = wheel_parameter w"
  "min_weight (update_weight_at w i) = min_weight w"
  "nr_functors (update_weight_at w i) = nr_functors w"
  "memory_length (update_weight_at w i) = memory_length w"
  "last_functor_id (update_weight_at w i) = last_functor_id w"
  "weights (update_weight_at w i) = (weights w)[i := new_weight w i]"
  "scores (update_weight_at w i) = (scores w)[i := 0]"
  "nr_uses (update_weight_at w i) = (nr_uses w)[i := 0]"
  by (simp_all add: update_weight_at_def new_weight_def Let_def max_def)

lemma update_upto_Suc: "update_upto (Suc n) w = update_weight_at (update_upto n w) n"
  by (simp add: update_upto_def)

lemma update_upto_inv:
  assumes "wheel_wf w" and "n \<le> nr_functors w"
  shows "wheel_parameter (update_upto n w) = wheel_parameter w
       \<and> min_weight (update_upto n w) = min_weight w
       \<and> nr_functors (update_upto n w) = nr_functors w
       \<and> weights (update_upto n w) = map (new_weight w) [0..<n] @ drop n (weights w)
       \<and> scores (update_upto n w) = replicate n 0 @ drop n (scores w)
       \<and> nr_uses (update_upto n w) = replicate n 0 @ drop n (nr_uses w)"
  using assms(2)
proof (induction n)
  case 0
  then show ?case by (simp add: update_upto_def)
next
  case (Suc n)
  then have IH: "wheel_parameter (update_upto n w) = wheel_parameter w"
      "min_weight (update_upto n w) = min_weight w"
      "nr_functors (update_upto n w) = nr_functors w"
      "weights (update_upto n w) = map (new_weight w) [0..<n] @ drop n (weights w)"
      "scores (update_upto n w) = replicate n 0 @ drop n (scores w)"
      "nr_uses (update_upto n w) = replicate n 0 @ drop n (nr_uses w)"
    by simp_all
  have n: "n < length (weights w)" "n < length (scores w)" "n < length (nr_uses w)"
    using Suc.prems assms(1) by (simp_all add: wheel_wf_def)
  have nw: "new_weight (update_upto n w) n = new_weight w n"
    using n by (simp add: new_weight_def IH nth_append)
  have upd: "\<And>xs ys (v::'a). length xs = n \<Longrightarrow> n < length ys \<Longrightarrow>
      (xs @ drop n ys)[n := v] = xs @ [v] @ drop (Suc n) ys"
    by (simp add: list_update_append Cons_nth_drop_Suc [symmetric] del: Cons_nth_drop_Suc)
  show ?case
    using n by (simp add: update_upto_Suc update_weight_at_fields IH nw upd replicate_append_same)
qed


lemma update_weights_upto: "update_weights w = update_upto (nr_functors w) w"
  by (simp add: update_weights_def update_upto_def)

lemma new_weight_ge: "min_weight w \<le> new_weight w i"
  by (simp add: new_weight_def)

lemma sum_list_pos_ge:
  fixes xs :: "real list"
  assumes "xs \<noteq> []" and "\<forall>x\<in>set xs. m \<le> x" and "0 < m"
  shows "0 < sum_list xs"
  using assms
proof (induction xs)
  case Nil
  then show ?case by simp
next
  case (Cons a xs)
  show ?case
  proof (cases "xs = []")
    case True
    with Cons.prems show ?thesis by simp
  next
    case False
    with Cons have "0 < sum_list xs" by simp
    moreover have "0 < a" using Cons.prems by simp
    ultimately show ?thesis by simp
  qed
qed

text \<open>
  C8, amended. On a wheel whose three vectors have \<open>nr_functors\<close> entries,
  \<open>update_weights\<close> sets the weight of every operator \<open>i\<close> with \<open>nr_uses[i] > 0\<close> to
  \<open>wheel_parameter * (scores[i] / nr_uses[i]) + (1 - wheel_parameter) * weights[i]\<close>,
  clamped from below at \<open>min_weight\<close>, and the weight of every operator with
  \<open>nr_uses[i] = 0\<close> to \<open>min_weight\<close>; it resets every score and every use count to 0;
  afterwards every weight is at least \<open>min_weight\<close>, and the sum of the weights is positive
  when \<open>min_weight\<close> is positive and the wheel has an operator.
\<close>

theorem update_weights_amended:
  assumes "wheel_wf w"
  shows "(\<forall>i<nr_functors w.
            (0 < nr_uses w ! i \<longrightarrow> weights (update_weights w) ! i =
                max (min_weight w)
                  (wheel_parameter w * (scores w ! i / real_of_int (nr_uses w ! i))
                    + (1 - wheel_parameter w) * weights w ! i))
          \<and> (nr_uses w ! i = 0 \<longrightarrow> weights (update_weights w) ! i = min_weight w)
          \<and> scores (update_weights w) ! i = 0
          \<and> nr_uses (update_weights w) ! i = 0
          \<and> min_weight w \<le> weights (update_weights w) ! i)
       \<and> wheel_wf (update_weights w)
       \<and> nr_functors (update_weights w) = nr_functors w
       \<and> min_weight (update_weights w) = min_weight w
       \<and> wheel_parameter (update_weights w) = wheel_parameter w
       \<and> (0 < min_weight w \<and> 0 < nr_functors w \<longrightarrow> 0 < sum_list (weights (update_weights w)))"
proof -
  let ?n = "nr_functors w"
  have len: "length (weights w) = ?n" "length (scores w) = ?n" "length (nr_uses w) = ?n"
    using assms by (simp_all add: wheel_wf_def)
  have inv: "wheel_parameter (update_weights w) = wheel_parameter w"
      "min_weight (update_weights w) = min_weight w"
      "nr_functors (update_weights w) = ?n"
      "weights (update_weights w) = map (new_weight w) [0..<?n]"
      "scores (update_weights w) = replicate ?n 0"
      "nr_uses (update_weights w) = replicate ?n 0"
    using update_upto_inv [OF assms, of ?n] len by (simp_all add: update_weights_upto)
  have pointwise: "\<forall>i<?n.
            (0 < nr_uses w ! i \<longrightarrow> weights (update_weights w) ! i =
                max (min_weight w)
                  (wheel_parameter w * (scores w ! i / real_of_int (nr_uses w ! i))
                    + (1 - wheel_parameter w) * weights w ! i))
          \<and> (nr_uses w ! i = 0 \<longrightarrow> weights (update_weights w) ! i = min_weight w)
          \<and> scores (update_weights w) ! i = 0
          \<and> nr_uses (update_weights w) ! i = 0
          \<and> min_weight w \<le> weights (update_weights w) ! i"
    by (simp add: inv new_weight_ge) (simp add: new_weight_def)
  have wf': "wheel_wf (update_weights w)"
    by (simp add: wheel_wf_def inv)
  have pos: "0 < sum_list (weights (update_weights w))" if "0 < min_weight w" "0 < ?n"
  proof (rule sum_list_pos_ge [where m = "min_weight w"])
    show "weights (update_weights w) \<noteq> []"
      using that by (simp add: inv)
    show "\<forall>x\<in>set (weights (update_weights w)). min_weight w \<le> x"
      by (auto simp: inv new_weight_ge)
    show "0 < min_weight w"
      by (rule that)
  qed
  from pointwise wf' pos show ?thesis
    by (simp add: inv(1-3))
qed

text \<open>
  C8 as stated promises a positive sum of the weights after every update. With
  \<open>min_weight = 0\<close>, which the constructor accepts, an operator that was not used gets
  weight 0, and the sum of the weights of a wheel of one operator is 0.
\<close>

theorem update_weights_sum_counterexample:
  "wheel_wf wheel_zero_min \<and> weights (update_weights wheel_zero_min) = [0]
   \<and> \<not> 0 < sum_list (weights (update_weights wheel_zero_min))"
  by (simp add: wheel_zero_min_def wheel_wf_def update_weights_def update_weight_at_def)

theorem update_weights_amended_witness:
  "wheel_wf wheel_two \<and> weights (update_weights wheel_two) = [1.2, 1]
   \<and> scores (update_weights wheel_two) = [0, 0] \<and> nr_uses (update_weights wheel_two) = [0, 0]
   \<and> 0 < sum_list (weights (update_weights wheel_two))"
proof -
  have wf: "wheel_wf wheel_two"
    by (simp add: wheel_two_def wheel_wf_def)
  have w: "weights (update_weights wheel_two) = [1.2, 1]"
    by (simp add: wheel_two_def update_weights_def update_weight_at_def upt_rec)
  have s: "scores (update_weights wheel_two) = [0, 0]"
    by (simp add: wheel_two_def update_weights_def update_weight_at_def upt_rec)
  have u: "nr_uses (update_weights wheel_two) = [0, 0]"
    by (simp add: wheel_two_def update_weights_def update_weight_at_def upt_rec)
  have "0 < min_weight wheel_two \<and> 0 < nr_functors wheel_two"
    by (simp add: wheel_two_def)
  with update_weights_amended [OF wf] have "0 < sum_list (weights (update_weights wheel_two))"
    by blast
  with wf w s u show ?thesis
    by simp
qed

subsection \<open>C10: the selection of a functor\<close>

lemma fold_plus_sum_list: "fold (\<lambda>weight s. s + weight) xs (a::real) = a + sum_list xs"
  by (induction xs arbitrary: a) simp_all

lemma functor_loop_selects:
  assumes "length (weights w) = nr_functors w"
    and "rnd \<le> sum_list (weights w)"
    and "k < nr_functors w"
  shows "\<exists>i. functor_loop w rnd k (sum_list (take k (weights w))) = Inr i
            \<and> k \<le> i \<and> i < nr_functors w"
  using assms(3)
proof (induction "nr_functors w - k" arbitrary: k)
  case 0
  then show ?case by simp
next
  case (Suc d)
  let ?cw = "sum_list (take k (weights w)) + weights w ! k"
  have take: "?cw = sum_list (take (Suc k) (weights w))"
    using Suc.prems assms(1) by (simp add: take_Suc_conv_app_nth)
  show ?case
  proof (cases "rnd \<le> ?cw")
    case True
    then have "functor_loop w rnd k (sum_list (take k (weights w))) = Inr k"
      using Suc.prems by (subst functor_loop.simps) (simp add: Let_def)
    with Suc.prems show ?thesis by simp
  next
    case False
    have "Suc k < nr_functors w"
    proof (rule ccontr)
      assume "\<not> Suc k < nr_functors w"
      with Suc.prems have "Suc k = nr_functors w" by simp
      with take assms(1) have "?cw = sum_list (weights w)" by simp
      with False assms(2) show False by simp
    qed
    moreover have "d = nr_functors w - Suc k"
      using Suc.hyps(2) by simp
    ultimately obtain i where i: "functor_loop w rnd (Suc k) (sum_list (take (Suc k) (weights w))) = Inr i"
        "Suc k \<le> i" "i < nr_functors w"
      using Suc.hyps(1) by blast
    have "functor_loop w rnd k (sum_list (take k (weights w))) =
          functor_loop w rnd (Suc k) ?cw"
      using False Suc.prems by (subst functor_loop.simps) (simp add: Let_def)
    with i take show ?thesis
      by auto
  qed
qed

text \<open>
  C10. On a wheel of at least one functor (\<open>weights\<close> has \<open>nr_functors\<close> entries) whose
  weights are all at least \<open>min_weight > 0\<close>, and for a draw \<open>uni\<close> in \<open>[0, 1)\<close>:
  the drawn value \<open>uni * sum\<close> does not exceed the sum of the weights,
  \<open>get_random_functor_id\<close> returns a functor id below \<open>nr_functors\<close> and records it as
  \<open>last_functor_id\<close>, and the exception of the last line is not raised.
\<close>

theorem get_random_functor_id_selects:
  assumes "length (weights w) = nr_functors w" and "0 < nr_functors w"
    and "0 < min_weight w" and "\<forall>x\<in>set (weights w). min_weight w \<le> x"
    and "0 \<le> uni" and "uni < 1"
  shows "uni * sum_list (weights w) \<le> sum_list (weights w)
       \<and> (\<exists>i<nr_functors w.
             get_random_functor_id w uni = Inr (i, w\<lparr>last_functor_id := i\<rparr>))
       \<and> get_random_functor_id w uni \<noteq> Inl NoFunctorSelected"
proof -
  have "weights w \<noteq> []"
    using assms(1,2) by auto
  then have "0 < sum_list (weights w)"
    using assms(4,3) by (rule sum_list_pos_ge)
  then have le: "uni * sum_list (weights w) \<le> sum_list (weights w)"
    using assms(6) by simp
  obtain i where i: "functor_loop w (uni * sum_list (weights w)) 0 0 = Inr i" "i < nr_functors w"
    using functor_loop_selects [OF assms(1) le assms(2)] by auto
  then have "get_random_functor_id w uni = Inr (i, w\<lparr>last_functor_id := i\<rparr>)"
    by (simp add: get_random_functor_id_def fold_plus_sum_list)
  with le i(2) show ?thesis
    by auto
qed

theorem get_random_functor_id_selects_witness:
  "length (weights wheel_two) = nr_functors wheel_two \<and> 0 < nr_functors wheel_two
   \<and> 0 < min_weight wheel_two \<and> list_all (\<lambda>x. min_weight wheel_two \<le> x) (weights wheel_two)
   \<and> get_random_functor_id wheel_two 0.5 = Inr (1, wheel_two\<lparr>last_functor_id := 1\<rparr>)"
proof -
  have h: "length (weights wheel_two) = nr_functors wheel_two" "0 < nr_functors wheel_two"
      "0 < min_weight wheel_two" "\<forall>x\<in>set (weights wheel_two). min_weight wheel_two \<le> x"
      "(0::real) \<le> 0.5" "(0.5::real) < 1"
    by (simp_all add: wheel_two_def)
  have "get_random_functor_id wheel_two 0.5 = Inr (1, wheel_two\<lparr>last_functor_id := 1\<rparr>)"
    by (simp add: get_random_functor_id_def wheel_two_def functor_loop.simps)
  with h(1-3) get_random_functor_id_selects [OF h] show ?thesis
    by (simp add: wheel_two_def)
qed

subsection \<open>C6: the diversity of a solution\<close>

text \<open>
  C6 fails on the code. One customer in one route, both arcs used once, \<open>iteration = 1\<close>:
  the source divides the \<open>int\<close> 1 by the \<open>int\<close> 2, which is 0, so each arc counts 1 and
  the result is \<open>2 / 2 = 1\<close>; the claimed value is \<open>(1/2 + 1/2) / 2 = 1/2\<close>.
\<close>

theorem get_diversity_integer_division:
  "get_diversity data_one (unevaluated [[0]]) [[0, 1], [1, 0]] 1 = 1
   \<and> diversity_spec data_one (unevaluated [[0]]) [[0, 1], [1, 0]] 1 = 1 / 2
   \<and> get_diversity data_one (unevaluated [[0]]) [[0, 1], [1, 0]] 1
       \<noteq> diversity_spec data_one (unevaluated [[0]]) [[0, 1], [1, 0]] 1"
proof -
  have c: "get_diversity data_one (unevaluated [[0]]) [[0, 1], [1, 0]] 1 = 1"
    by (simp add: get_diversity_def route_diversity_def cpp_div_def data_one_def unevaluated_def)
  have s: "diversity_spec data_one (unevaluated [[0]]) [[0, 1], [1, 0]] 1 = 1 / 2"
    by (simp add: diversity_spec_def route_arcs_def data_one_def unevaluated_def)
  from c s show ?thesis
    by simp
qed

text \<open>
  What the code computes in general: an arc counts \<open>1 - usage div (iteration + 1)\<close>, the
  quotient of the integer division.
\<close>

lemma route_diversity_fold:
  "fold (\<lambda>customer_id (prev_node_id, dv).
           (customer_id + 1,
            dv + real_of_int (1 - cpp_div (u ! prev_node_id ! (customer_id + 1)) n)))
     route (prev, acc)
   = (if route = [] then prev else Suc (last route),
      acc + (\<Sum>arc\<leftarrow>zip (prev # map Suc route) (map Suc route).
               real_of_int (1 - cpp_div (u ! fst arc ! snd arc) n)))"
  by (induction route arbitrary: prev acc) (simp_all add: algebra_simps)

lemma zip_snoc_last:
  "length xs = Suc (length ys) \<Longrightarrow> zip xs (ys @ [b]) = zip xs ys @ [(last xs, b)]"
  by (induction ys arbitrary: xs) (auto simp: length_Suc_conv)

lemma route_diversity_arcs:
  "route_diversity u n route acc
   = acc + (\<Sum>arc\<leftarrow>route_arcs route. real_of_int (1 - cpp_div (u ! fst arc ! snd arc) n))"
proof -
  have z: "zip (0 # map Suc route) (map Suc route @ [0])
      = zip (0 # map Suc route) (map Suc route)
        @ [(if route = [] then 0 else Suc (last route), 0)]"
    using zip_snoc_last [of "0 # map Suc route" "map Suc route" 0]
    by (simp add: last_map)
  show ?thesis
    unfolding route_diversity_def route_diversity_fold route_arcs_def z
    by simp
qed

subsection \<open>C5: the vehicle term of Shaw's relatedness\<close>

text \<open>
  The test of the source compares the route of the candidate with itself, so the
  vehicle weight is added for every candidate, whatever the routes of the candidate and
  of the reference customer are.
\<close>

lemma shaw_relatedness_always_adds:
  "shaw_relatedness op s q c =
     distance_weight op * (norm_distance_matrix op ! (q + 1) ! (c + 1))
     + window_weight op * (norm_start_window_matrix op ! q ! c)
     + window_weight op * (norm_end_window_matrix op ! q ! c)
     + demand_weight op * (norm_demand_matrix op ! q ! c)
     + vehicle_weight op"
  by (simp add: shaw_relatedness_def)

lemma solution_three_evaluated:
  "evaluate_solution data_three 1 1 (unevaluated [[0, 2], [1]]) = solution_three"
  by (simp add: solution_defs route_evaluate_defs data_three_def unevaluated_def
           solution_three_def enumerate_eq_zip upt_rec Let_def eval_nat_numeral)

text \<open>The loop over the candidates 1 and 2 for the reference customer 0: candidate 1
  scores 22, candidate 2 scores 18 and is kept (position 1 of the candidates).\<close>

lemma shaw_three_candidates:
  "shaw_candidates_loop shaw_three solution_three (\<lambda>k. 1 / 10) 0 [1, 2] (dbl_max, 0, 2)
   = (18, 1, 4)"
proof -
  have big: "22 < dbl_max"
    using dbl_max_ge by linarith
  show ?thesis
    by (simp add: shaw_candidates_loop_def shaw_relatedness_def shaw_three_def cpp_pow_def
             upt_rec big eval_nat_numeral)
qed

lemma shaw_three_removed:
  "fst (ShawDestroyOperator shaw_three data_three 1 1 2 (\<lambda>k. 1 / 10) solution_three)
   = Inr [0, 2]"
proof -
  have n: "nr_customer data_three = 3"
    by (simp add: data_three_def)
  have seed: "rand_number (1 / 10) 2 0 = 0"
    by (simp add: rand_number_def cpp_round_def cpp_int_of_double_def)
  have pick: "rand_number (1 / 10) 0 0 = 0"
    by (simp add: rand_number_def cpp_round_def cpp_int_of_double_def)
  have cand: "shaw_candidates_loop shaw_three solution_three (\<lambda>k. 1 / 10) 0 [Suc 0, 2]
                (dbl_max, 0, Suc (Suc 0)) = (18, Suc 0, 4)"
    using shaw_three_candidates by (simp add: numeral_2_eq_2)
  have sel: "shaw_select shaw_three solution_three (\<lambda>k. 1 / 10) 1 ([1, 2], [0], 0, 1)
             = ([1], [0, 2], 1, 4)"
    unfolding shaw_select_def
    by (simp add: pick cand remove_at_def)
  have rem: "fst (remove_customers [0, 2] solution_three) = None"
    by (simp add: get_customer_pos_def solution_three_def remove_at_def Let_def)
  have r1: "[1..<2] = [1::nat]"
    by (simp add: upt_rec)
  have r2: "remove_at (range_v 3) 0 = [1, 2]"
    by (simp add: range_v_def remove_at_def upt_rec)
  have "fold (shaw_select shaw_three solution_three (\<lambda>k. 1 / 10)) [1..<2]
          (remove_at (range_v 3) 0, [0], 0, 1) = ([1], [0, 2], 1, 4)"
    unfolding r1 r2 by (simp only: fold_simps comp_apply id_apply sel)
  then show ?thesis
    using rem
    by (cases "remove_customers [0, 2] solution_three")
       (simp add: ShawDestroyOperator_def n seed Let_def)
qed

text \<open>
  C5 fails on the code. Three customers, routes \<open>[0, 2]\<close> and \<open>[1]\<close>, two customers to
  remove, the seed is customer 0. \<open>ShawDestroyOperator\<close> evaluates the candidates 1 and 2
  against the reference customer 0. Candidate 1 is in the other route, and its
  relatedness \<open>9 + 3 + 3 + 2 = 17\<close> still gets the vehicle weight 5 added: it scores 22
  where the claim says 17. Candidate 2, in the route of customer 0, scores
  \<open>9 + 3 + 1 + 5 = 18\<close> on both sides. The operator takes the lower score: it removes
  customer 2, where the scores of the claim choose customer 1.
\<close>

theorem ShawDestroyOperator_vehicle_weight:
  "route_chromosome solution_three ! 1 \<noteq> route_chromosome solution_three ! 0
   \<and> shaw_relatedness_spec shaw_three solution_three 0 1 = 17
   \<and> shaw_relatedness_spec shaw_three solution_three 0 2 = 18
   \<and> shaw_relatedness shaw_three solution_three 0 1 = 22
   \<and> shaw_relatedness shaw_three solution_three 0 2 = 18
   \<and> shaw_candidates_loop shaw_three solution_three (\<lambda>k. 1 / 10) 0 [1, 2] (dbl_max, 0, 2)
       = (18, 1, 4)
   \<and> fst (ShawDestroyOperator shaw_three data_three 1 1 2 (\<lambda>k. 1 / 10) solution_three)
       = Inr [0, 2]"
proof -
  have "route_chromosome solution_three ! 1 \<noteq> route_chromosome solution_three ! 0"
    by (simp add: solution_three_def)
  moreover have "shaw_relatedness_spec shaw_three solution_three 0 1 = 17"
    "shaw_relatedness_spec shaw_three solution_three 0 2 = 18"
    by (simp_all add: shaw_relatedness_spec_def shaw_three_def solution_three_def
          eval_nat_numeral)
  moreover have "shaw_relatedness shaw_three solution_three 0 1 = 22"
    "shaw_relatedness shaw_three solution_three 0 2 = 18"
    by (simp_all add: shaw_relatedness_def shaw_three_def eval_nat_numeral)
  ultimately show ?thesis
    using shaw_three_candidates shaw_three_removed by simp
qed

subsection \<open>C4: worst removal\<close>

text \<open>
  Step 1 of the operator does not touch the list of removed customers, which is empty
  when the \<open>while\<close> loop of step 2 tests \<open>nr_removed_customers < removed_customers.size()\<close>:
  the loop is never entered.
\<close>

lemma worst_scan_pos_removed:
  "removed_customers (snd (worst_scan_pos d cw fw rf uni cp r pos m st)) = removed_customers st"
proof (induction d cw fw rf uni cp r pos m st rule: worst_scan_pos.induct)
  case (1 d cw fw rf uni cp r pos m st)
  show ?case
    by (subst worst_scan_pos.simps)
       (auto simp: Let_def "1.IH" split: prod.splits sum.splits)
qed

lemma worst_scan_routes_removed:
  "removed_customers (snd (worst_scan_routes d cw fw rf uni cp rs st)) = removed_customers st"
proof (induction rs arbitrary: st)
  case Nil
  show ?case by simp
next
  case (Cons r rs)
  show ?case
    using worst_scan_pos_removed [of d cw fw rf uni cp r 0 "- dbl_max" st]
    by (auto simp: Cons.IH split: prod.splits option.splits)
qed

lemma worst_scan_customers_removed:
  "removed_customers (snd (worst_scan_customers d cw fw rf uni cps st)) = removed_customers st"
proof (induction cps arbitrary: st)
  case Nil
  show ?case by simp
next
  case (Cons cp cps)
  show ?case
    using worst_scan_routes_removed [of d cw fw rf uni cp "[0..<nr_vehicles d]" st]
    by (auto simp: Cons.IH split: prod.splits option.splits)
qed

text \<open>
  For every fuel (also none), every sampled count and every draw, the operator comes
  back, and the list it returns is empty.
\<close>

lemma WorstRemovalDestroyOperator_returns_nothing:
  "\<exists>s'. WorstRemovalDestroyOperator fuel d cw fw rf normal_draw uni s = Some (Inl InfeasibilityException, s')
        \<or> WorstRemovalDestroyOperator fuel d cw fw rf normal_draw uni s = Some (Inl LogicError, s')
        \<or> WorstRemovalDestroyOperator fuel d cw fw rf normal_draw uni s = Some (Inl NoFunctorSelected, s')
        \<or> WorstRemovalDestroyOperator fuel d cw fw rf normal_draw uni s = Some (Inr [], s')"
proof -
  define st0 where "st0 = \<lparr>overall_max_diff = - dbl_max, best_customer_id_pos = 0,
      best_route_id = 0, best_rem_pos = 0,
      best_removals = replicate (nr_customer d) (replicate (nr_vehicles d) (0, 0)),
      candidates = range_v (nr_customer d), removed_customers = [],
      wr_draws = 0, wr_solution = s\<rparr>"
  obtain e st1 where sc: "worst_scan_customers d cw fw rf uni [0..<length (candidates st0)] st0 = (e, st1)"
    by fastforce
  have "removed_customers st1 = removed_customers st0"
    using worst_scan_customers_removed [of d cw fw rf uni "[0..<length (candidates st0)]" st0] sc
    by simp
  then have r: "removed_customers st1 = []"
    by (simp add: st0_def)
  then have w: "worst_removal_while fuel d cw fw rf uni k st1 = Some (None, st1)" for k
    by (cases fuel) simp_all
  show ?thesis
  proof (cases e)
    case None
    with sc w r show ?thesis
      by (simp add: WorstRemovalDestroyOperator_def Let_def st0_def [symmetric])
  next
    case (Some err)
    with sc show ?thesis
      by (cases err) (simp_all add: WorstRemovalDestroyOperator_def Let_def st0_def [symmetric])
  qed
qed

lemma solution_two_evaluated:
  "evaluate_solution data_two 1 1 (unevaluated [[0, 1]]) = solution_two"
  by (simp add: solution_defs route_evaluate_defs data_two_def unevaluated_def solution_two_def
           enumerate_eq_zip upt_rec Let_def eval_nat_numeral)

lemma solution_two_removal_0:
  "evaluate_removal_position data_two solution_two 1 1 0 0 = (Inr 2, solution_two)"
  by (simp add: evaluate_removal_position_def evaluate_change_defs route_evaluate_defs
           data_two_def solution_two_def upt_rec Let_def)

lemma solution_two_removal_1:
  "evaluate_removal_position data_two solution_two 1 1 0 (Suc 0) = (Inr 2, solution_two)"
  by (simp add: evaluate_removal_position_def evaluate_change_defs route_evaluate_defs
           data_two_def solution_two_def upt_rec Let_def)

text \<open>
  C4 fails on the code. One route with the customers 0 and 1, a sampled count of 1
  (which the clipping to \<open>[0, n_customers - 1] = [0, 1]\<close> leaves at 1): the operator
  returns the empty list and the solution it was given, with both customers in the
  route.
\<close>

theorem WorstRemovalDestroyOperator_removes_nothing:
  "WorstRemovalDestroyOperator 0 data_two 1 1 0 1 (\<lambda>k. 1 / 2)
     (evaluate_solution data_two 1 1 (unevaluated [[0, 1]]))
   = Some (Inr [], solution_two)
   \<and> solution_representation solution_two = [[0, 1]]
   \<and> nat (max 0 (min (int (nr_customer data_two) - 1) 1)) = 1"
proof -
  have len: "length (solution_representation solution_two ! 0) = 2"
    by (simp add: solution_two_def)
  have q: "solution_quality solution_two = 3"
    by (simp add: solution_two_def)
  have n: "nr_customer data_two = 2" "nr_vehicles data_two = 1"
    by (simp_all add: data_two_def)
  have "WorstRemovalDestroyOperator 0 data_two 1 1 0 1 (\<lambda>k. 1 / 2) solution_two
        = Some (Inr [], solution_two)"
    by (simp add: WorstRemovalDestroyOperator_def n range_v_def upt_rec worst_scan_pos.simps
             len q solution_two_removal_0 solution_two_removal_1 cpp_pow_def Let_def)
  then have "WorstRemovalDestroyOperator 0 data_two 1 1 0 1 (\<lambda>k. 1 / 2)
               (evaluate_solution data_two 1 1 (unevaluated [[0, 1]]))
             = Some (Inr [], solution_two)"
    by (simp only: solution_two_evaluated)
  moreover have "solution_representation solution_two = [[0, 1]]"
    by (simp add: solution_two_def)
  moreover have "nat (max 0 (min (int (nr_customer data_two) - 1) 1)) = 1"
    by (simp add: n)
  ultimately show ?thesis
    by blast
qed

subsection \<open>C9: the best solution\<close>

lemma update_historic_matrices_frame:
  "solution (update_historic_matrices a) = solution a"
  "running_solution (update_historic_matrices a) = running_solution a"
  by (simp_all add: update_historic_matrices_def split: prod.splits)

lemma compare_with_current_frame:
  "solution (fst (compare_with_current p r l b a)) = solution a"
  "running_solution (fst (compare_with_current p r l b a)) = running_solution a"
  by (simp_all add: compare_with_current_def Let_def)

lemma update_error_weights_frame: "solution (update_error_weights p a) = solution a"
  by (simp add: update_error_weights_def Let_def)

lemma prepare_next_iteration_frame:
  "solution (fst (prepare_next_iteration p e c (a, l, b))) = solution a"
  by (simp add: prepare_next_iteration_def Let_def update_error_weights_frame)

lemma compare_with_best_solution:
  "solution (fst (compare_with_best p b (a, l))) =
     (if driving_time (running_solution a) < driving_time (solution a)
         \<and> is_feasible (running_solution a)
      then running_solution a else solution a)"
  by (simp add: compare_with_best_def Let_def)

text \<open>One round of the loop: the best solution afterwards.\<close>

lemma solve_iteration_solution:
  assumes "solve_iteration p e (a, l) = Inr (a', l')"
  shows "\<exists>r. operated e = Inr r
           \<and> solution a' = (if driving_time r < driving_time (solution a) \<and> is_feasible r
                             then r else solution a)"
proof -
  from assms obtain dw iw di ii r where
    w: "get_random_functor_id (destroy_wheel a) (uni_destroy e) = Inr (di, dw)"
       "get_random_functor_id (insertion_wheel a) (uni_insertion e) = Inr (ii, iw)"
    and r: "operated e = Inr r"
    by (auto simp: solve_iteration_def split: sum.splits)
  define a1 where "a1 = update_historic_matrices
      (a\<lparr>destroy_wheel := dw, insertion_wheel := iw, running_solution := r\<rparr>)"
  define c where "c = (visited_solutions a1 (solution_representation (running_solution a1)) \<noteq> None)"
  define b where "b = (if \<not> c then functor_reward_unique p else 0)"
  obtain a2 b2 where cc: "compare_with_current p (random_int e) l b a1 = (a2, b2)"
    by fastforce
  obtain a3 l3 b3 where cb: "compare_with_best p b2 (a2, l) = (a3, l3, b3)"
    by (cases "compare_with_best p b2 (a2, l)") auto
  have "solve_iteration p e (a, l) =
          (case compare_with_current p (random_int e) l b a1 of
             (a2, b2) \<Rightarrow> Inr (prepare_next_iteration p e c (compare_with_best p b2 (a2, l))))"
    unfolding a1_def b_def c_def
    using w r by (simp add: solve_iteration_def Let_def)
  with assms cc cb have res: "(a', l') = prepare_next_iteration p e c (a3, l3, b3)"
    by simp
  have s1: "solution a1 = solution a" and r1: "running_solution a1 = r"
    by (simp_all add: a1_def update_historic_matrices_frame)
  have s2: "solution a2 = solution a" and r2: "running_solution a2 = r"
    using compare_with_current_frame [of p "random_int e" l b a1] cc s1 r1 by simp_all
  have "solution a3 = (if driving_time r < driving_time (solution a) \<and> is_feasible r
                        then r else solution a)"
    using compare_with_best_solution [of p b2 a2 l] cb s2 r2 by simp
  moreover have "solution a' = solution a3"
    using prepare_next_iteration_frame [of p e c a3 l3 b3] res by (metis fst_conv)
  ultimately show ?thesis
    using r by simp
qed

lemma solve_iterations_solution:
  assumes "solve_iterations p es st = Inr st'"
  shows "driving_time (solution (fst st')) \<le> driving_time (solution (fst st))
       \<and> (solution (fst st') = solution (fst st) \<or> is_feasible (solution (fst st')))
       \<and> (is_feasible (solution (fst st)) \<longrightarrow> is_feasible (solution (fst st')))"
  using assms
proof (induction es arbitrary: st)
  case Nil
  then show ?case by simp
next
  case (Cons e es)
  show ?case
  proof (cases "cpp_div (prev_time_stamp (snd st) - start (snd st)) 1000 < max_time p
                 \<and> real_of_int (iteration_wi (snd st)) < max_iterations p")
    case False
    with Cons.prems show ?thesis by auto
  next
    case True
    with Cons.prems obtain st1 where
      st1: "solve_iteration p e st = Inr st1" and rest: "solve_iterations p es st1 = Inr st'"
      by (auto split: sum.splits)
    obtain r where r: "solution (fst st1) =
        (if driving_time r < driving_time (solution (fst st)) \<and> is_feasible r
         then r else solution (fst st))"
      using solve_iteration_solution [of p e "fst st" "snd st" "fst st1" "snd st1"] st1
      by auto
    from Cons.IH [OF rest] r show ?thesis
      by (auto split: if_splits)
  qed
qed

text \<open>
  C9. A round of the main loop that comes back leaves the best solution as it was, or
  replaces it by the running solution the operators produced, which then is feasible
  and has a strictly smaller driving time; over any number of rounds the driving time of
  the best solution does not increase, the best solution is the one the run started
  with or is feasible, and a feasible best solution stays feasible.
\<close>

theorem best_solution_replaced_only_by_better_feasible:
  "(solve_iteration p e st = Inr st1 \<longrightarrow>
      solution (fst st1) = solution (fst st)
      \<or> (operated e = Inr (solution (fst st1)) \<and> is_feasible (solution (fst st1))
          \<and> driving_time (solution (fst st1)) < driving_time (solution (fst st))))
   \<and> (solve_iterations p es st = Inr st2 \<longrightarrow>
        driving_time (solution (fst st2)) \<le> driving_time (solution (fst st))
        \<and> (solution (fst st2) = solution (fst st) \<or> is_feasible (solution (fst st2)))
        \<and> (is_feasible (solution (fst st)) \<longrightarrow> is_feasible (solution (fst st2))))"
proof (intro conjI impI)
  assume "solve_iteration p e st = Inr st1"
  then obtain r where "operated e = Inr r"
    and "solution (fst st1) =
        (if driving_time r < driving_time (solution (fst st)) \<and> is_feasible r
         then r else solution (fst st))"
    using solve_iteration_solution [of p e "fst st" "snd st" "fst st1" "snd st1"] by auto
  then show "solution (fst st1) = solution (fst st)
      \<or> (operated e = Inr (solution (fst st1)) \<and> is_feasible (solution (fst st1))
          \<and> driving_time (solution (fst st1)) < driving_time (solution (fst st)))"
    by (auto split: if_splits)
next
  assume "solve_iterations p es st = Inr st2"
  from solve_iterations_solution [OF this]
  show "driving_time (solution (fst st2)) \<le> driving_time (solution (fst st))"
    and "solution (fst st2) = solution (fst st) \<or> is_feasible (solution (fst st2))"
    and "is_feasible (solution (fst st)) \<Longrightarrow> is_feasible (solution (fst st2))"
    by simp_all
qed

lemma dbl_max_large: "3 < dbl_max"
proof -
  have "(2::real) ^ 971 \<ge> 1"
    by simp
  then have "(2 ^ 53 - 1) * (1::real) \<le> (2 ^ 53 - 1) * 2 ^ 971"
    by (intro mult_left_mono) simp_all
  then show ?thesis
    by (simp add: dbl_max_def)
qed

lemma wheel_one_selects:
  "get_random_functor_id wheel_one (1 / 2) = Inr (0, wheel_one\<lparr>last_functor_id := 0\<rparr>)"
  by (simp add: get_random_functor_id_def wheel_one_def functor_loop.simps)

lemma solve_iteration_two_returns:
  "\<not> isl (solve_iteration params_two env_two (alns_two, locals_two))"
  by (simp add: solve_iteration_def alns_two_def env_two_def wheel_one_selects Let_def
           split: prod.splits)

lemma solve_iterations_two:
  "solve_iterations params_two [env_two] (alns_two, locals_two)
   = solve_iteration params_two env_two (alns_two, locals_two)"
proof -
  have "cpp_div (prev_time_stamp locals_two - start locals_two) 1000 < max_time params_two
        \<and> real_of_int (iteration_wi locals_two) < max_iterations params_two"
    by (simp add: locals_two_def params_two_def cpp_div_def)
  then show ?thesis
    by (cases "solve_iteration params_two env_two (alns_two, locals_two)") simp_all
qed

theorem best_solution_replaced_only_by_better_feasible_witness:
  "\<not> isl (solve_iteration params_two env_two (alns_two, locals_two))
   \<and> solution (fst (projr (solve_iteration params_two env_two (alns_two, locals_two))))
       = solution_two
   \<and> operated env_two = Inr solution_two \<and> is_feasible solution_two
   \<and> driving_time solution_two < driving_time (solution alns_two)
   \<and> solve_iterations params_two [env_two] (alns_two, locals_two)
       = solve_iteration params_two env_two (alns_two, locals_two)"
proof -
  let ?st = "(alns_two, locals_two)"
  let ?r = "solve_iteration params_two env_two ?st"
  have ret: "\<not> isl ?r"
    by (rule solve_iteration_two_returns)
  then have eq: "?r = Inr (projr ?r)"
    by (cases ?r) simp_all
  have dt: "driving_time solution_two < driving_time (solution alns_two)"
    using dbl_max_large by (simp add: solution_two_def alns_two_def unevaluated_def)
  have op: "operated env_two = Inr solution_two"
    by (simp add: env_two_def)
  have feas: "is_feasible solution_two"
    by (simp add: solution_two_def)
  have step: "solution (fst (projr ?r)) = solution (fst ?st)
      \<or> (operated env_two = Inr (solution (fst (projr ?r)))
          \<and> is_feasible (solution (fst (projr ?r)))
          \<and> driving_time (solution (fst (projr ?r))) < driving_time (solution (fst ?st)))"
    using best_solution_replaced_only_by_better_feasible
            [of params_two env_two ?st "projr ?r" "[]" ?st] eq
    by blast
  obtain r where r: "operated env_two = Inr r"
      "solution (fst (projr ?r)) =
        (if driving_time r < driving_time (solution alns_two) \<and> is_feasible r
         then r else solution alns_two)"
    using solve_iteration_solution [of params_two env_two alns_two locals_two
            "fst (projr ?r)" "snd (projr ?r)"] eq
    by auto
  with op dt feas have "solution (fst (projr ?r)) = solution_two"
    by simp
  with step ret op feas dt solve_iterations_two show ?thesis
    by simp
qed

subsection \<open>C1: the contract of evaluate\_change\<close>



















lemma five_forced_change:
  "evaluate_change data_five 0 0 1 1 five_forced = (Some InfeasibilityException, five_final)"
  by (simp add: evaluate_change_defs route_evaluate_defs data_five_def five_final_def
           five_forced_def five_probe_f_def five_probe_e_def five_inserted_def upt_rec Let_def
           eval_nat_numeral)


subsection \<open>Destroy and repair on the instance of five customers\<close>

lemmas five_states = five_destroyed_def five_probe_a_def five_probe_b_def five_probe_c_def
  five_probe_d_def five_chosen_def five_inserted_def five_probe_e_def five_probe_f_def five_forced_def
  five_final_def

lemmas insertion_defs = evaluate_insertion_position_def evaluate_change_defs route_evaluate_defs
  data_five_def upt_rec Let_def eval_nat_numeral

lemma solution_five_evaluated:
  "evaluate_solution data_five 1 1 (unevaluated [[0, 1], [2, 3, 4]]) = solution_five"
  by (simp add: solution_defs route_evaluate_defs data_five_def unevaluated_def solution_five_def
           enumerate_eq_zip upt_rec Let_def eval_nat_numeral)

lemma five_destroyed_evaluated:
  "evaluate_solution data_five 1 1 (solution_five\<lparr>solution_representation := [[0], [2]]\<rparr>)
   = five_destroyed"
  by (simp add: solution_defs route_evaluate_defs data_five_def solution_five_def
           five_destroyed_def enumerate_eq_zip upt_rec Let_def eval_nat_numeral)

lemma five_draws:
  "fold (\<lambda>route (draws, tmp_destroyed_route, removed_customers).
           (case random_destroy_route data_five (58 / 25) uni_five route
                   (draws, [], removed_customers) of
              (draws', new_route, removed_customers') \<Rightarrow>
                (draws', tmp_destroyed_route @ [new_route], removed_customers')))
     [[0, 1], [2, 3, 4]] (0, [], [])
   = (5, [[0], [2]], [1, 3, 4])"
  by (simp add: random_destroy_route_def rand_number_def cpp_round_def cpp_int_of_double_def
           uni_five_def data_five_def)

lemma five_destroy:
  "RandomDestroyOperator data_five 1 1 (58 / 25) uni_five solution_five
   = ([1, 3, 4], five_destroyed)"
proof -
  have r: "solution_representation solution_five = [[0, 1], [2, 3, 4]]"
    by (simp add: solution_five_def)
  show ?thesis
    unfolding RandomDestroyOperator_def r five_draws
    by (simp add: five_destroyed_evaluated)
qed

lemma five_probe_1_0_0:
  "evaluate_insertion_position data_five five_destroyed 1 1 0 (Suc 0) 0 = (Inr 10, five_probe_a)"
  by (simp add: insertion_defs five_states)

lemma five_probe_1_0_1:
  "evaluate_insertion_position data_five five_probe_a 1 1 0 (Suc 0) (Suc 0) = (Inr 10, five_probe_b)"
  by (simp add: insertion_defs five_states)

lemma five_probe_1_1_0:
  "evaluate_insertion_position data_five five_probe_b 1 1 (Suc 0) (Suc 0) 0 = (Inr 5, five_probe_c)"
  by (simp add: insertion_defs five_states)

lemma five_probe_1_1_1:
  "evaluate_insertion_position data_five five_probe_c 1 1 (Suc 0) (Suc 0) (Suc 0)
   = (Inr 5, five_probe_d)"
  by (simp add: insertion_defs five_states)

lemma five_probe_3_0_0:
  "evaluate_insertion_position data_five five_inserted 1 1 0 3 0
   = (Inl InfeasibilityException, five_probe_e)"
  by (simp add: insertion_defs five_states)

lemma five_probe_3_1_0:
  "evaluate_insertion_position data_five five_probe_e 1 1 (Suc 0) 3 0
   = (Inl InfeasibilityException, five_probe_f)"
  by (simp add: insertion_defs five_states)

lemma five_probe_fields:
  "solution_representation five_destroyed = [[0], [2]]"
  "solution_representation five_probe_a = [[0], [2]]"
  "solution_representation five_probe_b = [[0], [2]]"
  "solution_representation five_probe_c = [[0], [2]]"
  "solution_representation five_probe_d = [[0], [2]]"
  "solution_representation five_inserted = [[0], [1, 2]]"
  "solution_representation five_probe_e = [[0], [1, 2]]"
  "solution_representation five_probe_f = [[0], [1, 2]]"
  "solution_quality five_probe_a = 4"
  "solution_quality five_probe_b = 4"
  "solution_quality five_probe_c = 4"
  "solution_quality five_probe_d = 4"
  by (simp_all add: five_states)

text \<open>Customer 1 is cheapest at the front of route 1, at an increase of the quality
  by 1.\<close>

lemma five_best_1:
  "get_best_insertion data_five (Suc 0) five_destroyed 1 1 (- 1) = ((1, Suc 0, 0), five_probe_d)"
proof -
  have big: "6 < dbl_max"
    using dbl_max_ge by linarith
  show ?thesis
    by (simp add: get_best_insertion_def best_pos_loop.simps upt_rec five_probe_fields
             five_probe_1_0_0 five_probe_1_0_1 five_probe_1_1_0 five_probe_1_1_1 big)
qed

lemma five_insert_1:
  "evaluate_change data_five (Suc 0) 0 1 1 five_chosen = (None, five_inserted)"
  by (simp add: evaluate_change_defs route_evaluate_defs data_five_def five_states upt_rec
           Let_def eval_nat_numeral)

text \<open>No position takes customer 3: the first probe of either route raises, and the
  initial tuple \<open>(DBL_MAX, 0, 0)\<close> is returned.\<close>

lemma five_best_3:
  "get_best_insertion data_five 3 five_inserted 1 1 (- 1) = ((dbl_max, 0, 0), five_probe_f)"
  by (simp add: get_best_insertion_def best_pos_loop.simps upt_rec five_probe_fields
           five_probe_3_0_0 five_probe_3_1_0)

lemma five_repair:
  "BasicGreedyInsertionOperator data_five 1 1 [1, 3, 4] five_destroyed
   = (Some InfeasibilityException, five_final)"
proof -
  have s1: "five_probe_d\<lparr>solution_representation := (solution_representation five_probe_d)
                [Suc 0 := insert_at (solution_representation five_probe_d ! Suc 0) 0 (Suc 0)],
              route_chromosome := (route_chromosome five_probe_d)[Suc 0 := Suc 0]\<rparr>
            = five_chosen"
    by (simp add: five_states insert_at_def)
  have s2: "five_probe_f\<lparr>solution_representation := (solution_representation five_probe_f)
                [0 := insert_at (solution_representation five_probe_f ! 0) 0 3],
              route_chromosome := (route_chromosome five_probe_f)[3 := 0]\<rparr>
            = five_forced"
    by (simp add: five_states insert_at_def)
  show ?thesis
    by (simp add: five_best_1 five_best_3 s1 s2 five_insert_1 five_forced_change Let_def)
qed

subsection \<open>C2: probing restores the route, the exception leaves the repair operator\<close>

text \<open>
  The first two parts of the claim hold: \<open>evaluate_insertion_position\<close> leaves the routes
  as they were, on both exits (lemma \<open>evaluate_insertion_position_routes\<close>), and
  \<open>best_pos_loop\<close> leaves a route at its first raising position. The last part does not:
  when every route raises, \<open>get_best_insertion\<close> returns its initial tuple
  \<open>(DBL_MAX, 0, 0)\<close>, and \<open>BasicGreedyInsertionOperator\<close> inserts at route 0, position 0,
  and calls \<open>evaluate_change\<close> outside any \<open>try\<close>.
\<close>

text \<open>
  C2. On the instance of five customers, with customers 1, 3 and 4 to insert into the
  routes \<open>[0]\<close> and \<open>[2]\<close>: after customer 1 has gone to route 1, no route takes
  customer 3 (demand 10) within the pseudo-capacity, \<open>get_best_insertion\<close> returns
  \<open>(DBL_MAX, 0, 0)\<close>, and \<open>BasicGreedyInsertionOperator\<close> ends with
  \<open>InfeasibilityException\<close>: the exception leaves the repair operator.
\<close>

theorem BasicGreedyInsertionOperator_raises:
  "get_best_insertion data_five 3 five_inserted 1 1 (- 1) = ((dbl_max, 0, 0), five_probe_f)
   \<and> fst (BasicGreedyInsertionOperator data_five 1 1 [1, 3, 4] five_destroyed)
       = Some InfeasibilityException"
  by (rule conjI [OF five_best_3]) (simp only: five_repair fst_conv)

subsection \<open>C3: destroy and repair keep the customers\<close>

text \<open>
  C3. On the instance of five customers, \<open>RandomDestroyOperator\<close> returns the customers
  1, 3 and 4 and leaves the routes \<open>[0]\<close> and \<open>[2]\<close>; \<open>BasicGreedyInsertionOperator\<close> on
  that list then ends, by the exception, with the routes \<open>[3, 0]\<close> and \<open>[1, 2]\<close>, which
  are not the customers 0 to 4: customer 4 is in no route.
\<close>

theorem destroy_repair_loses_customer:
  "RandomDestroyOperator data_five 1 1 (58 / 25) uni_five solution_five
     = ([1, 3, 4], five_destroyed)
   \<and> solution_representation
         (snd (BasicGreedyInsertionOperator data_five 1 1 [1, 3, 4] five_destroyed))
       = [[3, 0], [1, 2]]
   \<and> mset (concat (solution_representation
         (snd (BasicGreedyInsertionOperator data_five 1 1 [1, 3, 4] five_destroyed))))
       \<noteq> mset [0..<nr_customer data_five]"
proof -
  have r: "solution_representation five_final = [[3, 0], [1, 2]]"
    by (simp add: five_states)
  have "4 \<in># mset [0..<nr_customer data_five]"
    by (simp add: data_five_def)
  moreover have "\<not> 4 \<in># mset (concat [[3, 0], [1, 2::nat]])"
    by simp
  ultimately have "mset (concat [[3, 0], [1, 2]]) \<noteq> mset [0..<nr_customer data_five]"
    by metis
  then show ?thesis
    by (simp only: five_destroy five_repair snd_conv r simp_thms)
qed

end
